theory Spec2Isabelle
  imports Main "HOL-Library.Word" "HOL-Library.Signed_Division"
begin

unbundle bit_operations_syntax

section \<open>NumbFS user-space library: a shallow embedding\<close>

text \<open>
  The development follows \<^verbatim>\<open>lib.c\<close>, \<^verbatim>\<open>internal.h\<close>, \<^verbatim>\<open>disk.h\<close> and the geometry
  computation of \<^verbatim>\<open>mkfs.c\<close>.

  Conventions of the embedding.
  \<^item> A C \<^verbatim>\<open>int\<close> is a HOL \<open>int\<close>; \<^verbatim>\<open>/\<close> and \<^verbatim>\<open>%\<close> are the truncating \<open>sdiv\<close> and
    \<open>smod\<close>. The sum \<^verbatim>\<open>offset + len\<close> that \<^verbatim>\<open>numbfs_pwrite_inode\<close> stores into the
    size leaves the range of \<^verbatim>\<open>int\<close> for offsets near \<^verbatim>\<open>INT_MAX\<close>; it is taken in
    32-bit two's complement, \<open>int32\<close>, which is what the compiled code computes
    (C itself leaves the overflow undefined). The other expressions are
    evaluated on the integers; the theorems are about calls in which these do
    not overflow.
  \<^item> A \<^verbatim>\<open>char buf[BYTES_PER_BLOCK]\<close> is a function from the index to the byte;
    only the indices \<open>0 \<dots> BYTES_PER_BLOCK - 1\<close> belong to the array, and a write
    to the device stores exactly these.
  \<^item> The open file descriptor \<^verbatim>\<open>sbi->fd\<close> is modelled by the device it denotes:
    the content of every block and, for every block number, whether a
    \<^verbatim>\<open>pread\<close> or a \<^verbatim>\<open>pwrite\<close> of that block comes back short (an I/O fault).
    A faulting \<^verbatim>\<open>pwrite\<close> leaves the device as it was. The faults are those
    during one call of the library; \<open>with_faults\<close> describes the device at the
    time of a later call.
  \<^item> A function that mutates \<^verbatim>\<open>*sbi\<close>, \<^verbatim>\<open>*inode\<close> or an output parameter returns
    the new values next to its C return value.
  \<^item> \<^verbatim>\<open>BUG_ON\<close> aborts the process: the functions that can reach it return an
    \<open>option\<close>, and \<open>None\<close> is the abort.
\<close>

subsection \<open>Constants\<close>

text \<open>
  Modelled from the spec: \<^verbatim>\<open>utils.h\<close> is not part of the sources at hand. The
  block size is a ``fixed compile-time constant''; the sample output in the
  repository's README (4096 inodes of 64 bytes fill blocks 3 to 514) fixes it
  to 512 bytes. A byte has 8 bits.
\<close>

definition BYTES_PER_BLOCK :: int where
  "BYTES_PER_BLOCK = 512"

definition BITS_PER_BYTE :: int where
  "BITS_PER_BYTE = 8"

definition NUMBFS_HOLE :: int where
  "NUMBFS_HOLE = - 32"

definition NUMBFS_NUM_DATA_ENTRY :: int where
  "NUMBFS_NUM_DATA_ENTRY = 10"

definition NUMBFS_ROOT_NID :: int where
  "NUMBFS_ROOT_NID = 1"

text \<open>\<^verbatim>\<open>sizeof(struct numbfs_inode)\<close> and \<^verbatim>\<open>sizeof(struct numbfs_dirent)\<close>.\<close>

definition SIZEOF_INODE :: int where
  "SIZEOF_INODE = 64"


definition NUMBFS_BLOCKS_PER_BLOCK :: int where
  "NUMBFS_BLOCKS_PER_BLOCK = BYTES_PER_BLOCK * BITS_PER_BYTE"

definition NUMBFS_NODES_PER_BLOCK :: int where
  "NUMBFS_NODES_PER_BLOCK = BYTES_PER_BLOCK sdiv SIZEOF_INODE"

text \<open>The values of \<^verbatim>\<open>errno.h\<close> on Linux.\<close>

definition EIO :: int where "EIO = 5"
definition E2BIG :: int where "E2BIG = 7"
definition ENOMEM :: int where "ENOMEM = 12"
definition EINVAL :: int where "EINVAL = 22"
definition ENOTSUP :: int where "ENOTSUP = 95"


subsection \<open>The device and the in-memory mirrors\<close>

type_synonym byte = "8 word"
type_synonym block = "int \<Rightarrow> byte"

record device =
  blocks :: "int \<Rightarrow> block"
  rfault :: "int \<Rightarrow> bool"
  wfault :: "int \<Rightarrow> bool"

record numbfs_superblock_info =
  fd :: device
  feature :: int
  total_inodes :: int
  free_inodes :: int
  data_blocks :: int
  free_blocks :: int
  ibitmap_start :: int
  inode_start :: int
  bbitmap_start :: int
  data_start :: int
  dsize :: int

text \<open>
  \<^verbatim>\<open>struct numbfs_inode_info\<close>. The pointer \<^verbatim>\<open>sbi\<close> of the C struct always refers
  to the one superblock mirror, which the functions below take and return
  explicitly. The field \<^verbatim>\<open>size\<close> is called \<open>fsize\<close>, and the array
  \<^verbatim>\<open>data[NUMBFS_NUM_DATA_ENTRY]\<close> is a function of the index.
\<close>

record numbfs_inode_info =
  nid :: int
  mode :: int
  nlink :: int
  uid :: int
  gid :: int
  fsize :: int
  data :: "int \<Rightarrow> int"

subsection \<open>Block transfers\<close>

definition numbfs_read_block :: "numbfs_superblock_info \<Rightarrow> block \<Rightarrow> int \<Rightarrow> int \<times> block" where
  "numbfs_read_block sbi buf blkno =
     (if rfault (fd sbi) blkno then (- EIO, buf)
      else (0, blocks (fd sbi) blkno))"

text \<open>
  \<^verbatim>\<open>pwrite(fd, buf, BYTES_PER_BLOCK, \<dots>)\<close> stores the bytes \<open>0 \<dots> BYTES_PER_BLOCK - 1\<close>
  of the buffer: \<open>transfer old buf\<close> is the block that held \<open>old\<close> after the
  write of \<open>buf\<close>.
\<close>

definition transfer :: "block \<Rightarrow> block \<Rightarrow> block" where
  "transfer old buf = (\<lambda>j. if 0 \<le> j \<and> j < BYTES_PER_BLOCK then buf j else old j)"

definition numbfs_write_block ::
  "numbfs_superblock_info \<Rightarrow> block \<Rightarrow> int \<Rightarrow> int \<times> numbfs_superblock_info" where
  "numbfs_write_block sbi buf blkno =
     (if wfault (fd sbi) blkno then (- EIO, sbi)
      else (0, sbi\<lparr>fd := (fd sbi)\<lparr>blocks :=
                   (blocks (fd sbi))(blkno := transfer (blocks (fd sbi) blkno) buf)\<rparr>\<rparr>))"

subsection \<open>Bitmap addressing (\<^verbatim>\<open>internal.h\<close>)\<close>

definition numbfs_bmap_blk :: "int \<Rightarrow> int \<Rightarrow> int" where
  "numbfs_bmap_blk startblk blkno = startblk + blkno sdiv NUMBFS_BLOCKS_PER_BLOCK"

definition numbfs_bmap_byte :: "int \<Rightarrow> int" where
  "numbfs_bmap_byte blkno = (blkno smod NUMBFS_BLOCKS_PER_BLOCK) sdiv BITS_PER_BYTE"

definition numbfs_bmap_bit :: "int \<Rightarrow> int" where
  "numbfs_bmap_bit blkno = (blkno smod NUMBFS_BLOCKS_PER_BLOCK) smod BITS_PER_BYTE"

text \<open>
  \<^verbatim>\<open>NUMBFS_NODES_PER_BLOCK\<close> has type \<^verbatim>\<open>size_t\<close>, so C divides the inode number as
  an unsigned value; for the non-negative inode numbers the library hands out
  this is the division below.
\<close>

definition numbfs_inode_blk :: "numbfs_superblock_info \<Rightarrow> int \<Rightarrow> int" where
  "numbfs_inode_blk sbi n = inode_start sbi + n sdiv NUMBFS_NODES_PER_BLOCK"

definition numbfs_data_blk :: "numbfs_superblock_info \<Rightarrow> int \<Rightarrow> int" where
  "numbfs_data_blk sbi blk = data_start sbi + blk"

text \<open>\<^verbatim>\<open>buf[byte] & (1 << bit)\<close>, \<^verbatim>\<open>buf[byte] |= (1 << bit)\<close>, \<^verbatim>\<open>buf[byte] &= ~(1 << bit)\<close>.\<close>

definition bit_mask :: "int \<Rightarrow> byte" where
  "bit_mask b = push_bit (nat b) 1"

definition test_bit :: "block \<Rightarrow> int \<Rightarrow> int \<Rightarrow> bool" where
  "test_bit buf byte b \<longleftrightarrow> (buf byte AND bit_mask b) \<noteq> 0"

definition set_bit_buf :: "block \<Rightarrow> int \<Rightarrow> int \<Rightarrow> block" where
  "set_bit_buf buf byte b = buf(byte := buf byte OR bit_mask b)"

definition clear_bit_buf :: "block \<Rightarrow> int \<Rightarrow> int \<Rightarrow> block" where
  "clear_bit_buf buf byte b = buf(byte := buf byte AND NOT (bit_mask b))"

subsection \<open>The bitmap allocator\<close>

text \<open>
  The \<^verbatim>\<open>for\<close> loop of \<^verbatim>\<open>numbfs_bitmap_alloc\<close>, from index \<open>i\<close> on, with the block
  buffer and the current value of \<^verbatim>\<open>*res\<close>. It yields the error of an early
  \<^verbatim>\<open>return\<close> (or 0 when the loop ends or breaks), the device and \<^verbatim>\<open>*res\<close>.
\<close>

function bitmap_alloc_loop ::
  "numbfs_superblock_info \<Rightarrow> int \<Rightarrow> int \<Rightarrow> int \<Rightarrow> block \<Rightarrow> int
     \<Rightarrow> int \<times> numbfs_superblock_info \<times> int" where
  "bitmap_alloc_loop sbi startblk ntotal i buf res =
     (if i < ntotal then
        (case (if i smod NUMBFS_BLOCKS_PER_BLOCK = 0
               then numbfs_read_block sbi buf (numbfs_bmap_blk startblk i)
               else (0, buf)) of
           (err, buf1) \<Rightarrow>
             if err \<noteq> 0 then (err, sbi, res)
             else if \<not> test_bit buf1 (numbfs_bmap_byte i) (numbfs_bmap_bit i) then
               (case numbfs_write_block sbi
                        (set_bit_buf buf1 (numbfs_bmap_byte i) (numbfs_bmap_bit i))
                        (numbfs_bmap_blk startblk i) of
                  (err2, sbi2) \<Rightarrow> (err2, sbi2, i))
             else bitmap_alloc_loop sbi startblk ntotal (i + 1) buf1 res)
      else (0, sbi, res))"
  by pat_completeness auto
termination
  by (relation "measure (\<lambda>(sbi, startblk, ntotal, i, buf, res). nat (ntotal - i))") auto

declare bitmap_alloc_loop.simps [simp del]

text \<open>
  \<^verbatim>\<open>numbfs_bitmap_alloc\<close>: the result is the return value, the device, \<^verbatim>\<open>*res\<close>
  and \<^verbatim>\<open>*status\<close>. The local buffer is not initialised in C; its first use is
  the block read of iteration 0, so the model starts from a zeroed one.
\<close>

definition numbfs_bitmap_alloc ::
  "numbfs_superblock_info \<Rightarrow> int \<Rightarrow> int \<Rightarrow> int \<Rightarrow> int
     \<Rightarrow> int \<times> numbfs_superblock_info \<times> int \<times> int" where
  "numbfs_bitmap_alloc sbi startblk ntotal res status =
     (case bitmap_alloc_loop sbi startblk ntotal 0 (\<lambda>_. 0) res of
        (err, sbi1, res1) \<Rightarrow>
          if err \<noteq> 0 then (err, sbi1, res1, status)
          else (0, sbi1, res1, status - 1))"

definition numbfs_alloc_block ::
  "numbfs_superblock_info \<Rightarrow> int \<Rightarrow> int \<times> numbfs_superblock_info \<times> int" where
  "numbfs_alloc_block sbi blkno =
     (if free_blocks sbi = 0 then (- ENOMEM, sbi, blkno)
      else (case numbfs_bitmap_alloc sbi (bbitmap_start sbi) (data_blocks sbi)
                   blkno (free_blocks sbi) of
              (err, sbi1, res, status) \<Rightarrow> (err, sbi1\<lparr>free_blocks := status\<rparr>, res)))"

definition numbfs_alloc_inode ::
  "numbfs_superblock_info \<Rightarrow> int \<Rightarrow> int \<times> numbfs_superblock_info \<times> int" where
  "numbfs_alloc_inode sbi n =
     (if free_inodes sbi = 0 then (- ENOMEM, sbi, n)
      else (case numbfs_bitmap_alloc sbi (ibitmap_start sbi) (total_inodes sbi)
                   n (free_inodes sbi) of
              (err, sbi1, res, status) \<Rightarrow> (err, sbi1\<lparr>free_inodes := status\<rparr>, res)))"

text \<open>
  \<^verbatim>\<open>numbfs_bitmap_free\<close>: \<open>None\<close> is the abort of \<^verbatim>\<open>BUG_ON\<close>. The result of the
  write-back is stored in \<^verbatim>\<open>err\<close> and not looked at again.
\<close>

definition numbfs_bitmap_free ::
  "numbfs_superblock_info \<Rightarrow> int \<Rightarrow> int \<Rightarrow> int
     \<Rightarrow> (int \<times> numbfs_superblock_info \<times> int) option" where
  "numbfs_bitmap_free sbi startblk free status =
     (case numbfs_read_block sbi (\<lambda>_. 0) (numbfs_bmap_blk startblk free) of
        (err, buf) \<Rightarrow>
          if err \<noteq> 0 then Some (err, sbi, status)
          else if \<not> test_bit buf (numbfs_bmap_byte free) (numbfs_bmap_bit free) then None
          else (case numbfs_write_block sbi
                       (clear_bit_buf buf (numbfs_bmap_byte free) (numbfs_bmap_bit free))
                       (numbfs_bmap_blk startblk free) of
                  (err2, sbi2) \<Rightarrow> Some (0, sbi2, status + 1)))"

definition numbfs_free_block ::
  "numbfs_superblock_info \<Rightarrow> int \<Rightarrow> (int \<times> numbfs_superblock_info) option" where
  "numbfs_free_block sbi blkno =
     (if blkno \<ge> data_blocks sbi then Some (- EINVAL, sbi)
      else (case numbfs_bitmap_free sbi (bbitmap_start sbi) blkno (free_blocks sbi) of
              None \<Rightarrow> None
            | Some (err, sbi1, status) \<Rightarrow> Some (err, sbi1\<lparr>free_blocks := status\<rparr>)))"

definition numbfs_free_inode ::
  "numbfs_superblock_info \<Rightarrow> int \<Rightarrow> (int \<times> numbfs_superblock_info) option" where
  "numbfs_free_inode sbi n =
     (if n \<ge> total_inodes sbi then Some (- EINVAL, sbi)
      else (case numbfs_bitmap_free sbi (ibitmap_start sbi) n (free_inodes sbi) of
              None \<Rightarrow> None
            | Some (err, sbi1, status) \<Rightarrow> Some (err, sbi1\<lparr>free_inodes := status\<rparr>)))"

subsection \<open>Block address translation\<close>

text \<open>
  \<^verbatim>\<open>numbfs_inode_blkaddr\<close>. The last argument is the indeterminate initial value of
  the local \<^verbatim>\<open>blkno\<close>, which \<^verbatim>\<open>numbfs_alloc_block\<close> overwrites when it finds a
  free unit. The result is the return value and the two mirrors.
\<close>

definition numbfs_inode_blkaddr ::
  "numbfs_superblock_info \<Rightarrow> numbfs_inode_info \<Rightarrow> int \<Rightarrow> bool \<Rightarrow> bool \<Rightarrow> int
     \<Rightarrow> int \<times> numbfs_superblock_info \<times> numbfs_inode_info" where
  "numbfs_inode_blkaddr sbi inode pos alloc extent blkno0 =
     (if extent then (- ENOTSUP, sbi, inode)
      else if pos sdiv BYTES_PER_BLOCK \<ge> NUMBFS_NUM_DATA_ENTRY then (- E2BIG, sbi, inode)
      else if alloc \<and> data inode (pos sdiv BYTES_PER_BLOCK) = NUMBFS_HOLE then
        (case numbfs_alloc_block sbi blkno0 of
           (err, sbi1, blkno) \<Rightarrow>
             if err \<noteq> 0 then (err, sbi1, inode)
             else (case numbfs_write_block sbi1 (\<lambda>_. 0) (numbfs_data_blk sbi1 blkno) of
                     (err2, sbi2) \<Rightarrow>
                       if err2 \<noteq> 0 then (err2, sbi2, inode)
                       else (blkno, sbi2,
                             inode\<lparr>data := (data inode)(pos sdiv BYTES_PER_BLOCK := blkno)\<rparr>)))
      else (data inode (pos sdiv BYTES_PER_BLOCK), sbi, inode))"

subsection \<open>Byte buffers and little-endian fields\<close>

text \<open>
  \<^verbatim>\<open>memcpy(dst + doff, src + soff, n)\<close> and \<^verbatim>\<open>memset(s, c, n)\<close> of the C library:
  \<^verbatim>\<open>memset\<close> stores the value \<open>c\<close>, converted to a byte, into the first \<open>n\<close>
  bytes.
\<close>

definition memcpy_buf :: "block \<Rightarrow> int \<Rightarrow> block \<Rightarrow> int \<Rightarrow> int \<Rightarrow> block" where
  "memcpy_buf dst doff src soff n =
     (\<lambda>j. if doff \<le> j \<and> j < doff + n then src (j - doff + soff) else dst j)"

definition memset_buf :: "block \<Rightarrow> int \<Rightarrow> int \<Rightarrow> block" where
  "memset_buf s c n = (\<lambda>j. if 0 \<le> j \<and> j < n then word_of_int c else s j)"

text \<open>
  Modelled from the spec: \<^verbatim>\<open>cpu_to_le16\<close>, \<^verbatim>\<open>cpu_to_le32\<close>, \<^verbatim>\<open>le16_to_cpu\<close> and
  \<^verbatim>\<open>le32_to_cpu\<close> come from \<^verbatim>\<open>utils.h\<close>; the on-disk integers are little-endian
  throughout. Storing keeps the low 16 or 32 bits of the value; a 32-bit field
  read back into an \<^verbatim>\<open>int\<close> is the two's complement value.
\<close>

definition le_byte :: "int \<Rightarrow> nat \<Rightarrow> byte" where
  "le_byte v k = word_of_int (v div 256 ^ k)"

definition put_le16 :: "block \<Rightarrow> int \<Rightarrow> int \<Rightarrow> block" where
  "put_le16 buf off v = buf(off := le_byte v 0, off + 1 := le_byte v 1)"

definition put_le32 :: "block \<Rightarrow> int \<Rightarrow> int \<Rightarrow> block" where
  "put_le32 buf off v =
     buf(off := le_byte v 0, off + 1 := le_byte v 1,
         off + 2 := le_byte v 2, off + 3 := le_byte v 3)"

definition get_le16 :: "block \<Rightarrow> int \<Rightarrow> int" where
  "get_le16 buf off = uint (buf off) + 256 * uint (buf (off + 1))"

definition get_le32 :: "block \<Rightarrow> int \<Rightarrow> int" where
  "get_le32 buf off =
     sint (word_of_int (uint (buf off) + 256 * uint (buf (off + 1))
                        + 65536 * uint (buf (off + 2))
                        + 16777216 * uint (buf (off + 3))) :: 32 word)"

text \<open>The field offsets of \<^verbatim>\<open>struct numbfs_inode\<close> and \<^verbatim>\<open>struct numbfs_dirent\<close> (\<^verbatim>\<open>disk.h\<close>).\<close>

definition OFF_I_INO :: int where "OFF_I_INO = 0"
definition OFF_I_NLINK :: int where "OFF_I_NLINK = 2"
definition OFF_I_UID :: int where "OFF_I_UID = 4"
definition OFF_I_GID :: int where "OFF_I_GID = 6"
definition OFF_I_MODE :: int where "OFF_I_MODE = 8"
definition OFF_I_SIZE :: int where "OFF_I_SIZE = 12"
definition OFF_I_DATA :: int where "OFF_I_DATA = 24"


subsection \<open>The inode codec\<close>

text \<open>The byte offset of inode \<open>n\<close> inside its block of the inode table.\<close>

definition inode_off :: "int \<Rightarrow> int" where
  "inode_off n = (n smod NUMBFS_NODES_PER_BLOCK) * SIZEOF_INODE"

text \<open>
  The assignments of \<^verbatim>\<open>numbfs_get_inode\<close> from the on-disk record at byte offset
  \<open>base\<close> of the block buffer, and the assignments of \<^verbatim>\<open>numbfs_dump_inode\<close> to it.
\<close>

definition inode_from_disk :: "block \<Rightarrow> int \<Rightarrow> numbfs_inode_info \<Rightarrow> numbfs_inode_info" where
  "inode_from_disk buf base inode_i =
     inode_i\<lparr>
       mode := get_le32 buf (base + OFF_I_MODE),
       nlink := get_le16 buf (base + OFF_I_NLINK),
       uid := get_le16 buf (base + OFF_I_UID),
       gid := get_le16 buf (base + OFF_I_GID),
       fsize := get_le32 buf (base + OFF_I_SIZE),
       data := fold (\<lambda>i d. d(i := get_le32 buf (base + OFF_I_DATA + 4 * i)))
                 [0 .. 9] (data inode_i)\<rparr>"

definition inode_to_disk :: "block \<Rightarrow> int \<Rightarrow> numbfs_inode_info \<Rightarrow> block" where
  "inode_to_disk meta base inode_i =
     (let m1 = put_le16 meta (base + OFF_I_INO) (nid inode_i);
          m2 = put_le32 m1 (base + OFF_I_MODE) (mode inode_i);
          m3 = put_le16 m2 (base + OFF_I_NLINK) (nlink inode_i);
          m4 = put_le16 m3 (base + OFF_I_UID) (uid inode_i);
          m5 = put_le16 m4 (base + OFF_I_GID) (gid inode_i);
          m6 = put_le32 m5 (base + OFF_I_SIZE) (fsize inode_i)
      in fold (\<lambda>i m. put_le32 m (base + OFF_I_DATA + 4 * i) (data inode_i i)) [0 .. 9] m6)"

definition numbfs_get_inode ::
  "numbfs_superblock_info \<Rightarrow> numbfs_inode_info \<Rightarrow> int \<times> numbfs_inode_info" where
  "numbfs_get_inode sbi inode_i =
     (case numbfs_read_block sbi (\<lambda>_. 0) (numbfs_inode_blk sbi (nid inode_i)) of
        (err, buf) \<Rightarrow>
          if err \<noteq> 0 then (err, inode_i)
          else (0, inode_from_disk buf (inode_off (nid inode_i)) inode_i))"

text \<open>
  \<^verbatim>\<open>numbfs_dump_inode\<close> of a build without \<^verbatim>\<open>HAVE_NUMBFS_DEBUG\<close> (the debug build
  re-reads the block and asserts three of the fields).
\<close>

definition numbfs_dump_inode ::
  "numbfs_superblock_info \<Rightarrow> numbfs_inode_info \<Rightarrow> int \<times> numbfs_superblock_info" where
  "numbfs_dump_inode sbi inode_i =
     (case numbfs_read_block sbi (\<lambda>_. 0) (numbfs_inode_blk sbi (nid inode_i)) of
        (err, meta) \<Rightarrow>
          if err \<noteq> 0 then (err, sbi)
          else
            (case numbfs_write_block sbi (inode_to_disk meta (inode_off (nid inode_i)) inode_i)
                    (numbfs_inode_blk sbi (nid inode_i)) of
               (err2, sbi2) \<Rightarrow> if err2 \<noteq> 0 then (- EIO, sbi2) else (0, sbi2)))"

subsection \<open>Sparse file I/O\<close>

text \<open>
  The value of an \<^verbatim>\<open>int\<close> expression in 32-bit two's complement.
\<close>

definition int32 :: "int \<Rightarrow> int" where
  "int32 x = signed_take_bit 31 x"

text \<open>
  \<^verbatim>\<open>numbfs_pwrite_inode\<close>; the last argument is the indeterminate initial value of
  the local \<^verbatim>\<open>blkno\<close> of the address translation.
\<close>

definition numbfs_pwrite_inode ::
  "numbfs_superblock_info \<Rightarrow> numbfs_inode_info \<Rightarrow> block \<Rightarrow> int \<Rightarrow> int \<Rightarrow> int
     \<Rightarrow> int \<times> numbfs_superblock_info \<times> numbfs_inode_info" where
  "numbfs_pwrite_inode sbi inode_i buf offset len blkno0 =
     (let off = offset smod BYTES_PER_BLOCK in
      if off + len > BYTES_PER_BLOCK then (- E2BIG, sbi, inode_i)
      else
        (let inode1 = inode_i\<lparr>fsize := max (fsize inode_i) (int32 (offset + len))\<rparr> in
         case numbfs_inode_blkaddr sbi inode1 offset True False blkno0 of
           (target, sbi1, inode2) \<Rightarrow>
             if target < 0 then (target, sbi1, inode2)
             else
               (case numbfs_read_block sbi1 (\<lambda>_. 0) (numbfs_data_blk sbi1 target) of
                  (err, tmp) \<Rightarrow>
                    if err \<noteq> 0 then (err, sbi1, inode2)
                    else
                      (case numbfs_write_block sbi1 (memcpy_buf tmp off buf 0 len)
                               (numbfs_data_blk sbi1 target) of
                         (err2, sbi2) \<Rightarrow>
                           if err2 \<noteq> 0 then (err2, sbi2, inode2)
                           else (case numbfs_dump_inode sbi2 inode2 of
                                   (err3, sbi3) \<Rightarrow> (err3, sbi3, inode2))))))"

text \<open>
  \<^verbatim>\<open>numbfs_pread_inode\<close>: the return value and the caller's buffer. The address
  translation is called without allocation, which leaves both mirrors alone.
  The hole branch is \<^verbatim>\<open>memset(buf, len, BYTES_PER_BLOCK)\<close>.
\<close>

definition numbfs_pread_inode ::
  "numbfs_superblock_info \<Rightarrow> numbfs_inode_info \<Rightarrow> block \<Rightarrow> int \<Rightarrow> int \<Rightarrow> int \<times> block" where
  "numbfs_pread_inode sbi inode_i buf offset len =
     (let off = offset smod BYTES_PER_BLOCK in
      if off + len > BYTES_PER_BLOCK then (- E2BIG, buf)
      else
        (case numbfs_inode_blkaddr sbi inode_i offset False False 0 of
           (target, sbi1, inode1) \<Rightarrow>
             if target < 0 \<and> target \<noteq> NUMBFS_HOLE then (target, buf)
             else if offset \<ge> fsize inode1 \<or> target = NUMBFS_HOLE then
               (0, memset_buf buf len BYTES_PER_BLOCK)
             else
               (case numbfs_read_block sbi1 (\<lambda>_. 0) (numbfs_data_blk sbi1 target) of
                  (err, tmp) \<Rightarrow>
                    if err \<noteq> 0 then (err, buf)
                    else (0, memcpy_buf buf 0 tmp off len))))"

subsection \<open>Directory bootstrap\<close>







subsection \<open>Geometry of the format tool\<close>

text \<open>
  Modelled from the spec: the macros \<^verbatim>\<open>DIV_ROUND_UP\<close> and \<^verbatim>\<open>round_up\<close> come from
  \<^verbatim>\<open>utils.h\<close>. Each zone is sized ``by ceiling-division of its requirement'';
  on C integers that is \<^verbatim>\<open>(n + d - 1) / d\<close>, and \<^verbatim>\<open>round_up\<close> is the next multiple.
\<close>

definition DIV_ROUND_UP :: "int \<Rightarrow> int \<Rightarrow> int" where
  "DIV_ROUND_UP n d = (n + d - 1) sdiv d"

definition round_up :: "int \<Rightarrow> int \<Rightarrow> int" where
  "round_up x y = DIV_ROUND_UP x y * y"

text \<open>
  The part of \<^verbatim>\<open>numbfs_mkfs\<close> that fixes the geometry: from the size check of the
  device to the assignment of \<^verbatim>\<open>sbi.data_start\<close>, without the block writes in
  between. \<open>dev_size\<close> is the size \<^verbatim>\<open>fstat\<close> or the \<^verbatim>\<open>ioctl\<close> reports; the requested
  size and the inode count are in \<^verbatim>\<open>sbi\<close> (\<open>dsize\<close> is \<open>-1\<close> when no size was asked
  for). The result is the error code, or the mirror with its geometry and the
  local \<^verbatim>\<open>total_blocks\<close>.
\<close>

definition numbfs_mkfs_geometry ::
  "numbfs_superblock_info \<Rightarrow> int \<Rightarrow> int + (numbfs_superblock_info \<times> int)" where
  "numbfs_mkfs_geometry sbi dev_size =
     (if dsize sbi \<noteq> - 1 \<and> dev_size < dsize sbi then Inl (- EINVAL)
      else
        (let sbi0 = (if dsize sbi = - 1 then sbi\<lparr>dsize := dev_size\<rparr> else sbi) in
         if dsize sbi0 \<le> 2 * BYTES_PER_BLOCK
               + round_up (total_inodes sbi0 * 64) BYTES_PER_BLOCK + 3
         then Inl (- EINVAL)
         else
           (let total_blocks = dsize sbi0 sdiv BYTES_PER_BLOCK;
                sbi1 = sbi0\<lparr>ibitmap_start := 2\<rparr>;
                sbi2 = sbi1\<lparr>inode_start := ibitmap_start sbi1 +
                         DIV_ROUND_UP (DIV_ROUND_UP (total_inodes sbi1) BITS_PER_BYTE)
                           BYTES_PER_BLOCK\<rparr>;
                sbi3 = sbi2\<lparr>bbitmap_start := inode_start sbi2 +
                         DIV_ROUND_UP (total_inodes sbi2 * SIZEOF_INODE) BYTES_PER_BLOCK\<rparr>;
                remain = total_blocks - bbitmap_start sbi3 - 1;
                sbi4 = sbi3\<lparr>data_blocks := remain -
                         DIV_ROUND_UP (DIV_ROUND_UP remain BITS_PER_BYTE) BYTES_PER_BLOCK\<rparr>;
                sbi5 = sbi4\<lparr>free_blocks := data_blocks sbi4\<rparr>;
                end_blk = bbitmap_start sbi5 +
                         DIV_ROUND_UP (DIV_ROUND_UP (data_blocks sbi5) BITS_PER_BYTE)
                           BYTES_PER_BLOCK
            in Inr (sbi5\<lparr>data_start := end_blk\<rparr>, total_blocks))))"

subsection \<open>Counting free units (\<^verbatim>\<open>test.c\<close>)\<close>

text \<open>
  \<^verbatim>\<open>numbfs_block_count\<close> and \<^verbatim>\<open>numbfs_inode_count\<close> of the test program count the
  zero bits of a bitmap over its unit count. \<open>unit_used\<close> is the bit of one unit
  as it is on the device.
\<close>

definition unit_used :: "numbfs_superblock_info \<Rightarrow> int \<Rightarrow> int \<Rightarrow> bool" where
  "unit_used sbi startblk i \<longleftrightarrow>
     test_bit (blocks (fd sbi) (numbfs_bmap_blk startblk i))
       (numbfs_bmap_byte i) (numbfs_bmap_bit i)"

definition bitmap_count :: "numbfs_superblock_info \<Rightarrow> int \<Rightarrow> int \<Rightarrow> int" where
  "bitmap_count sbi startblk ntotal =
     int (length (filter (\<lambda>i. \<not> unit_used sbi startblk i) [0 .. ntotal - 1]))"

definition numbfs_block_count :: "numbfs_superblock_info \<Rightarrow> int" where
  "numbfs_block_count sbi = bitmap_count sbi (bbitmap_start sbi) (data_blocks sbi)"

definition numbfs_inode_count :: "numbfs_superblock_info \<Rightarrow> int" where
  "numbfs_inode_count sbi = bitmap_count sbi (ibitmap_start sbi) (total_inodes sbi)"

text \<open>
  The superblock mirror after the bit of unit \<open>i\<close> has been set, or cleared, in
  its bitmap block on the device; used to state what the allocator writes.
\<close>

definition bitmap_mark :: "numbfs_superblock_info \<Rightarrow> int \<Rightarrow> int \<Rightarrow> numbfs_superblock_info" where
  "bitmap_mark sbi startblk i =
     sbi\<lparr>fd := (fd sbi)\<lparr>blocks := (blocks (fd sbi))
       (numbfs_bmap_blk startblk i :=
          set_bit_buf (blocks (fd sbi) (numbfs_bmap_blk startblk i))
            (numbfs_bmap_byte i) (numbfs_bmap_bit i))\<rparr>\<rparr>"

definition bitmap_unmark :: "numbfs_superblock_info \<Rightarrow> int \<Rightarrow> int \<Rightarrow> numbfs_superblock_info" where
  "bitmap_unmark sbi startblk i =
     sbi\<lparr>fd := (fd sbi)\<lparr>blocks := (blocks (fd sbi))
       (numbfs_bmap_blk startblk i :=
          clear_bit_buf (blocks (fd sbi) (numbfs_bmap_blk startblk i))
            (numbfs_bmap_byte i) (numbfs_bmap_bit i))\<rparr>\<rparr>"

text \<open>
  The two instances of the allocator: the inode bitmap with \<^verbatim>\<open>numbfs_alloc_inode\<close>
  and \<^verbatim>\<open>numbfs_free_inode\<close>, the block bitmap with \<^verbatim>\<open>numbfs_alloc_block\<close> and
  \<^verbatim>\<open>numbfs_free_block\<close>; for each its start block, unit count and free counter.
\<close>

datatype region = Inode_region | Block_region

fun region_start :: "region \<Rightarrow> numbfs_superblock_info \<Rightarrow> int" where
  "region_start Inode_region sbi = ibitmap_start sbi"
| "region_start Block_region sbi = bbitmap_start sbi"

fun region_total :: "region \<Rightarrow> numbfs_superblock_info \<Rightarrow> int" where
  "region_total Inode_region sbi = total_inodes sbi"
| "region_total Block_region sbi = data_blocks sbi"

fun region_free :: "region \<Rightarrow> numbfs_superblock_info \<Rightarrow> int" where
  "region_free Inode_region sbi = free_inodes sbi"
| "region_free Block_region sbi = free_blocks sbi"

fun region_alloc ::
  "region \<Rightarrow> numbfs_superblock_info \<Rightarrow> int \<Rightarrow> int \<times> numbfs_superblock_info \<times> int" where
  "region_alloc Inode_region sbi junk = numbfs_alloc_inode sbi junk"
| "region_alloc Block_region sbi junk = numbfs_alloc_block sbi junk"

fun region_release ::
  "region \<Rightarrow> numbfs_superblock_info \<Rightarrow> int \<Rightarrow> (int \<times> numbfs_superblock_info) option" where
  "region_release Inode_region sbi i = numbfs_free_inode sbi i"
| "region_release Block_region sbi i = numbfs_free_block sbi i"

text \<open>
  The equality the test program asserts after every step: the free counter is
  the number of zero bits of the bitmap over its unit count.
\<close>

definition counter_consistent :: "region \<Rightarrow> numbfs_superblock_info \<Rightarrow> bool" where
  "counter_consistent r sbi \<longleftrightarrow>
     region_free r sbi = bitmap_count sbi (region_start r sbi) (region_total r sbi)"

text \<open>
  The allocation loops of \<^verbatim>\<open>test_inode_management\<close> and \<^verbatim>\<open>test_block_management\<close>:
  \<open>n\<close> successive allocations, each into a fresh array element of indeterminate
  content \<open>junk\<close>; the result lists the return value and the unit of every call.
\<close>

fun alloc_units ::
  "nat \<Rightarrow> region \<Rightarrow> numbfs_superblock_info \<Rightarrow> int
     \<Rightarrow> (int \<times> int) list \<times> numbfs_superblock_info" where
  "alloc_units 0 r sbi junk = ([], sbi)"
| "alloc_units (Suc n) r sbi junk =
     (case region_alloc r sbi junk of
        (err, sbi1, u) \<Rightarrow>
          (case alloc_units n r sbi1 junk of (rs, sbi2) \<Rightarrow> ((err, u) # rs, sbi2)))"

text \<open>
  Two superblock mirrors with the same geometry on devices with the same
  faults: what every operation of the library leaves alone.
\<close>

definition same_layout :: "numbfs_superblock_info \<Rightarrow> numbfs_superblock_info \<Rightarrow> bool" where
  "same_layout a b \<longleftrightarrow>
     total_inodes a = total_inodes b \<and> data_blocks a = data_blocks b \<and>
     ibitmap_start a = ibitmap_start b \<and> inode_start a = inode_start b \<and>
     bbitmap_start a = bbitmap_start b \<and> data_start a = data_start b \<and>
     rfault (fd a) = rfault (fd b) \<and> wfault (fd a) = wfault (fd b)"





text \<open>The bitmap of the region is empty over its unit count.\<close>

definition bitmap_empty :: "region \<Rightarrow> numbfs_superblock_info \<Rightarrow> bool" where
  "bitmap_empty r sbi \<longleftrightarrow>
     (\<forall>j. 0 \<le> j \<and> j < region_total r sbi \<longrightarrow> \<not> unit_used sbi (region_start r sbi) j)"

text \<open>No transfer of a bitmap block of the region faults.\<close>

definition region_healthy :: "region \<Rightarrow> numbfs_superblock_info \<Rightarrow> bool" where
  "region_healthy r sbi \<longleftrightarrow>
     (\<forall>j. 0 \<le> j \<and> j < region_total r sbi \<longrightarrow>
        \<not> rfault (fd sbi) (numbfs_bmap_blk (region_start r sbi) j) \<and>
        \<not> wfault (fd sbi) (numbfs_bmap_blk (region_start r sbi) j))"

subsection \<open>A small file system for evaluation\<close>

text \<open>
  A device of 14 blocks without faults, formatted for 8 inodes: the layout
  that the geometry computation yields for 7168 bytes, with empty bitmaps and
  zeroed blocks. \<open>ex_inode\<close> is the mirror of inode 1 with all ten direct
  pointers holed, as the format tool leaves the inode table.
\<close>

definition ex_dev :: device where
  "ex_dev = \<lparr>blocks = (\<lambda>_ _. 0), rfault = (\<lambda>_. False), wfault = (\<lambda>_. False)\<rparr>"

definition ex_sbi :: numbfs_superblock_info where
  "ex_sbi = \<lparr>fd = ex_dev, feature = 0, total_inodes = 8, free_inodes = 8,
             data_blocks = 8, free_blocks = 8, ibitmap_start = 2, inode_start = 3,
             bbitmap_start = 4, data_start = 5, dsize = 7168\<rparr>"

definition ex_inode :: numbfs_inode_info where
  "ex_inode = \<lparr>nid = 1, mode = 0, nlink = 0, uid = 0, gid = 0, fsize = 0,
               data = (\<lambda>_. NUMBFS_HOLE)\<rparr>"

text \<open>The zeroed buffer, and the buffer a caller hands to a read.\<close>

definition zero_buf :: block where
  "zero_buf = (\<lambda>_. 0)"

text \<open>
  The same file system with data block 0 allocated (bit 0 of the block bitmap
  set, seven blocks free) on a device whose block 4, the block bitmap, cannot be
  written.
\<close>

definition wf_dev :: device where
  "wf_dev = \<lparr>blocks = (\<lambda>b. if b = 4 then (\<lambda>j. if j = 0 then 1 else 0) else (\<lambda>_. 0)),
             rfault = (\<lambda>_. False), wfault = (\<lambda>b. b = 4)\<rparr>"

definition wf_sbi :: numbfs_superblock_info where
  "wf_sbi = ex_sbi\<lparr>fd := wf_dev, free_blocks := 7\<rparr>"










text \<open>The small file system with the inodes 0 and 2 in use: six inodes are free.\<close>

definition ib_dev :: device where
  "ib_dev = \<lparr>blocks = (\<lambda>b. if b = 2 then (\<lambda>j. if j = 0 then 5 else 0) else (\<lambda>_. 0)),
             rfault = (\<lambda>_. False), wfault = (\<lambda>_. False)\<rparr>"

definition ib_sbi :: numbfs_superblock_info where
  "ib_sbi = ex_sbi\<lparr>fd := ib_dev, free_inodes := 6\<rparr>"

text \<open>The mirror of the format tool before the geometry is computed: 8 inodes, no size requested.\<close>

definition tiny_sbi :: numbfs_superblock_info where
  "tiny_sbi = ex_sbi\<lparr>dsize := - 1\<rparr>"

section \<open>Helper facts\<close>

lemma sdiv_nonneg: "0 \<le> a \<Longrightarrow> 0 \<le> b \<Longrightarrow> (a::int) sdiv b = a div b"
  by (cases "b = 0"; cases "a = 0") (simp_all add: signed_divide_int_def)

lemma smod_nonneg: "0 \<le> a \<Longrightarrow> 0 \<le> b \<Longrightarrow> (a::int) smod b = a mod b"
  by (cases "b = 0"; cases "a = 0") (simp_all add: signed_modulo_int_def)

lemma sdiv_numeral: "(numeral a :: int) sdiv numeral b = numeral a div numeral b"
  by (simp add: signed_divide_int_def)

lemma sdiv_neg_numeral: "(- numeral a :: int) sdiv numeral b = - (numeral a div numeral b)"
  by (simp add: signed_divide_int_def)

lemma smod_numeral: "(numeral a :: int) smod numeral b = numeral a mod numeral b"
  by (simp add: signed_modulo_int_def)

lemma smod_neg_numeral: "(- numeral a :: int) smod numeral b = - (numeral a mod numeral b)"
  by (simp add: signed_modulo_int_def)

lemma sdiv_one_numeral: "(1 :: int) sdiv numeral b = 1 div numeral b"
  by (simp add: signed_divide_int_def)

lemma smod_one_numeral: "(1 :: int) smod numeral b = 1 mod numeral b"
  by (simp add: signed_modulo_int_def)

lemmas c_divmod = sdiv_numeral sdiv_neg_numeral smod_numeral smod_neg_numeral
  sdiv_one_numeral smod_one_numeral

text \<open>The 32-bit value of a sum.\<close>

lemma int32_id: "- 2147483648 \<le> x \<Longrightarrow> x \<le> 2147483647 \<Longrightarrow> int32 x = x"
  by (simp add: int32_def signed_take_bit_int_eq_self)

lemma int32_overflow: "int32 2147483648 = - 2147483648"
  by (simp add: int32_def signed_take_bit_eq_take_bit_minus take_bit_eq_mod bit_iff_odd)

lemma bmap_zero:
  "numbfs_bmap_blk s 0 = s" "numbfs_bmap_byte 0 = 0" "numbfs_bmap_bit 0 = 0"
  by (simp_all add: numbfs_bmap_blk_def numbfs_bmap_byte_def numbfs_bmap_bit_def)

subsection \<open>Addressing a unit of a bitmap\<close>

lemma bmap_blk_nonneg: "0 \<le> i \<Longrightarrow> numbfs_bmap_blk s i = s + i div 4096"
  by (simp add: numbfs_bmap_blk_def NUMBFS_BLOCKS_PER_BLOCK_def BYTES_PER_BLOCK_def
      BITS_PER_BYTE_def sdiv_nonneg)

lemma bmap_byte_nonneg: "0 \<le> i \<Longrightarrow> numbfs_bmap_byte i = (i mod 4096) div 8"
  by (simp add: numbfs_bmap_byte_def NUMBFS_BLOCKS_PER_BLOCK_def BYTES_PER_BLOCK_def
      BITS_PER_BYTE_def sdiv_nonneg smod_nonneg)

lemma bmap_bit_nonneg: "0 \<le> i \<Longrightarrow> numbfs_bmap_bit i = i mod 8"
proof -
  assume h: "0 \<le> i"
  have "(i mod 4096) mod 8 = i mod 8"
    by (rule mod_mod_cancel) simp
  with h show ?thesis
    by (simp add: numbfs_bmap_bit_def NUMBFS_BLOCKS_PER_BLOCK_def BYTES_PER_BLOCK_def
        BITS_PER_BYTE_def smod_nonneg)
qed

text \<open>Block, byte and bit together determine the unit.\<close>

lemma unit_addr_inj:
  fixes j k :: int
  assumes "j div 4096 = k div 4096" "(j mod 4096) div 8 = (k mod 4096) div 8" "j mod 8 = k mod 8"
  shows "j = k"
proof -
  have m: "(x mod 4096) mod 8 = x mod 8" for x :: int
    by (rule mod_mod_cancel) simp
  have d: "x mod 4096 = 8 * ((x mod 4096) div 8) + x mod 8" for x :: int
    using mult_div_mod_eq [of 8 "x mod 4096"] by (simp add: m)
  have "j mod 4096 = k mod 4096"
    using d [of j] d [of k] assms by simp
  moreover have "j = 4096 * (j div 4096) + j mod 4096" "k = 4096 * (k div 4096) + k mod 4096"
    by simp_all
  ultimately show ?thesis using assms(1) by simp
qed

lemma test_bit_iff: "0 \<le> b \<Longrightarrow> b < 8 \<Longrightarrow> test_bit buf byte b \<longleftrightarrow> bit (buf byte) (nat b)"
  by (simp add: test_bit_def bit_mask_def push_bit_of_1 and_exp_eq_0_iff_not_bit)

lemma test_bit_set:
  assumes "0 \<le> b" "b < 8" "0 \<le> b'" "b' < 8"
  shows "test_bit (set_bit_buf buf byte b) byte' b' \<longleftrightarrow>
           (byte' = byte \<and> b' = b) \<or> test_bit buf byte' b'"
  using assms
  by (auto simp add: test_bit_iff set_bit_buf_def bit_mask_def push_bit_of_1 bit_or_iff bit_exp_iff)

lemma test_bit_clear:
  assumes "0 \<le> b" "b < 8" "0 \<le> b'" "b' < 8"
  shows "test_bit (clear_bit_buf buf byte b) byte' b' \<longleftrightarrow>
           \<not> (byte' = byte \<and> b' = b) \<and> test_bit buf byte' b'"
  using assms
  by (auto simp add: test_bit_iff clear_bit_buf_def bit_mask_def push_bit_of_1 bit_and_iff
      bit_not_iff bit_exp_iff)

subsection \<open>Marking a unit on the device\<close>

lemma bmap_bit_range: "0 \<le> i \<Longrightarrow> 0 \<le> numbfs_bmap_bit i \<and> numbfs_bmap_bit i < 8"
  by (simp add: bmap_bit_nonneg)

lemma bmap_byte_range:
  assumes "0 \<le> i"
  shows "0 \<le> numbfs_bmap_byte i \<and> numbfs_bmap_byte i < BYTES_PER_BLOCK"
proof -
  define r where "r = i mod 4096"
  have r: "0 \<le> r" "r < 4096" by (simp_all add: r_def)
  have "0 \<le> r div 8" using r(1) by simp
  moreover have "r div 8 < 512" using r(2) by simp
  ultimately show ?thesis
    using assms by (simp add: bmap_byte_nonneg BYTES_PER_BLOCK_def r_def)
qed


lemma transfer_set_bit:
  "0 \<le> byte \<and> byte < BYTES_PER_BLOCK \<Longrightarrow>
     transfer old (set_bit_buf old byte b) = set_bit_buf old byte b"
  by (auto simp add: transfer_def set_bit_buf_def fun_eq_iff)

lemma transfer_clear_bit:
  "0 \<le> byte \<and> byte < BYTES_PER_BLOCK \<Longrightarrow>
     transfer old (clear_bit_buf old byte b) = clear_bit_buf old byte b"
  by (auto simp add: transfer_def clear_bit_buf_def fun_eq_iff)

lemma unit_used_mark:
  assumes "0 \<le> j" "0 \<le> k"
  shows "unit_used (bitmap_mark sbi s k) s j \<longleftrightarrow> j = k \<or> unit_used sbi s j"
proof (cases "numbfs_bmap_blk s j = numbfs_bmap_blk s k")
  case False
  then have "j \<noteq> k" by auto
  with False show ?thesis by (simp add: unit_used_def bitmap_mark_def)
next
  case True
  then have blk: "j div 4096 = k div 4096"
    using assms by (simp add: bmap_blk_nonneg)
  have "(numbfs_bmap_byte j = numbfs_bmap_byte k \<and> numbfs_bmap_bit j = numbfs_bmap_bit k)
          \<longleftrightarrow> j = k"
    using assms blk unit_addr_inj [of j k]
    by (auto simp add: bmap_byte_nonneg bmap_bit_nonneg)
  with True show ?thesis
    using bmap_bit_range [OF assms(1)] bmap_bit_range [OF assms(2)]
    by (simp add: unit_used_def bitmap_mark_def test_bit_set)
qed

lemma unit_used_unmark:
  assumes "0 \<le> j" "0 \<le> k"
  shows "unit_used (bitmap_unmark sbi s k) s j \<longleftrightarrow> j \<noteq> k \<and> unit_used sbi s j"
proof (cases "numbfs_bmap_blk s j = numbfs_bmap_blk s k")
  case False
  then have "j \<noteq> k" by auto
  with False show ?thesis by (simp add: unit_used_def bitmap_unmark_def)
next
  case True
  then have blk: "j div 4096 = k div 4096"
    using assms by (simp add: bmap_blk_nonneg)
  have "(numbfs_bmap_byte j = numbfs_bmap_byte k \<and> numbfs_bmap_bit j = numbfs_bmap_bit k)
          \<longleftrightarrow> j = k"
    using assms blk unit_addr_inj [of j k]
    by (auto simp add: bmap_byte_nonneg bmap_bit_nonneg)
  with True show ?thesis
    using bmap_bit_range [OF assms(1)] bmap_bit_range [OF assms(2)]
    by (simp add: unit_used_def bitmap_unmark_def test_bit_clear)
qed

lemma unit_used_mark_other:
  assumes "numbfs_bmap_blk s' j \<noteq> numbfs_bmap_blk s k"
  shows "unit_used (bitmap_mark sbi s k) s' j \<longleftrightarrow> unit_used sbi s' j"
  using assms by (simp add: unit_used_def bitmap_mark_def)

lemma bitmap_mark_fields:
  "total_inodes (bitmap_mark sbi s k) = total_inodes sbi"
  "free_inodes (bitmap_mark sbi s k) = free_inodes sbi"
  "data_blocks (bitmap_mark sbi s k) = data_blocks sbi"
  "free_blocks (bitmap_mark sbi s k) = free_blocks sbi"
  "ibitmap_start (bitmap_mark sbi s k) = ibitmap_start sbi"
  "inode_start (bitmap_mark sbi s k) = inode_start sbi"
  "bbitmap_start (bitmap_mark sbi s k) = bbitmap_start sbi"
  "data_start (bitmap_mark sbi s k) = data_start sbi"
  "rfault (fd (bitmap_mark sbi s k)) = rfault (fd sbi)"
  "wfault (fd (bitmap_mark sbi s k)) = wfault (fd sbi)"
  by (simp_all add: bitmap_mark_def)

subsection \<open>The allocation loop finds the lowest free unit\<close>

lemma bitmap_alloc_loop_step:
  assumes "0 \<le> i" "i < ntotal"
    and "\<not> rfault (fd sbi) (numbfs_bmap_blk startblk i)"
    and "i mod 4096 \<noteq> 0 \<longrightarrow> buf = blocks (fd sbi) (numbfs_bmap_blk startblk i)"
  shows "bitmap_alloc_loop sbi startblk ntotal i buf res =
           (if \<not> unit_used sbi startblk i
            then (case numbfs_write_block sbi
                         (set_bit_buf (blocks (fd sbi) (numbfs_bmap_blk startblk i))
                            (numbfs_bmap_byte i) (numbfs_bmap_bit i))
                         (numbfs_bmap_blk startblk i) of
                    (err2, sbi2) \<Rightarrow> (err2, sbi2, i))
            else bitmap_alloc_loop sbi startblk ntotal (i + 1)
                   (blocks (fd sbi) (numbfs_bmap_blk startblk i)) res)"
proof -
  have sm: "i smod NUMBFS_BLOCKS_PER_BLOCK = i mod 4096"
    using assms(1)
    by (simp add: NUMBFS_BLOCKS_PER_BLOCK_def BYTES_PER_BLOCK_def BITS_PER_BYTE_def smod_nonneg)
  have b1: "(if i mod 4096 = 0 then numbfs_read_block sbi buf (numbfs_bmap_blk startblk i)
             else (0, buf)) = (0, blocks (fd sbi) (numbfs_bmap_blk startblk i))"
    using assms(3,4) by (simp add: numbfs_read_block_def)
  show ?thesis
    using assms(2)
    by (subst bitmap_alloc_loop.simps) (simp add: sm b1 unit_used_def)
qed

lemma same_bitmap_block:
  assumes "0 \<le> i" "(i + 1) mod 4096 \<noteq> 0"
  shows "numbfs_bmap_blk startblk (i + 1) = numbfs_bmap_blk startblk i"
proof -
  have e: "i = 4096 * ((i + 1) div 4096) + ((i + 1) mod 4096 - 1)"
    using mult_div_mod_eq [of 4096 "i + 1"] by linarith
  have r: "0 \<le> (i + 1) mod 4096 - 1 \<and> (i + 1) mod 4096 - 1 < 4096"
  proof -
    have "0 \<le> (i + 1) mod 4096" "(i + 1) mod 4096 < 4096" by simp_all
    with assms(2) show ?thesis by linarith
  qed
  have "i div 4096 = (i + 1) div 4096"
    using int_div_pos_eq [OF e] r by simp
  then show ?thesis using assms(1) by (simp add: bmap_blk_nonneg)
qed

lemma bitmap_alloc_loop_first_fit:
  assumes "0 \<le> i" "i \<le> k" "k < ntotal"
    and "\<forall>j. i \<le> j \<and> j < k \<longrightarrow> unit_used sbi startblk j"
    and "\<not> unit_used sbi startblk k"
    and "\<forall>j. i \<le> j \<and> j \<le> k \<longrightarrow> \<not> rfault (fd sbi) (numbfs_bmap_blk startblk j)"
    and "\<not> wfault (fd sbi) (numbfs_bmap_blk startblk k)"
    and "i mod 4096 \<noteq> 0 \<longrightarrow> buf = blocks (fd sbi) (numbfs_bmap_blk startblk i)"
  shows "bitmap_alloc_loop sbi startblk ntotal i buf res = (0, bitmap_mark sbi startblk k, k)"
  using assms
proof (induction "nat (k - i)" arbitrary: i buf)
  case 0
  then have ik: "i = k" by simp
  have "bitmap_alloc_loop sbi startblk ntotal k buf res = (0, bitmap_mark sbi startblk k, k)"
    using "0.prems" unfolding ik
    by (subst bitmap_alloc_loop_step)
       (simp_all add: numbfs_write_block_def bitmap_mark_def transfer_set_bit bmap_byte_range)
  then show ?case by (simp add: ik)
next
  case (Suc n)
  then have lt: "i < k" by simp
  have IH: "bitmap_alloc_loop sbi startblk ntotal (i + 1)
              (blocks (fd sbi) (numbfs_bmap_blk startblk i)) res = (0, bitmap_mark sbi startblk k, k)"
  proof (rule Suc.hyps(1))
    show "n = nat (k - (i + 1))" using Suc.hyps(2) by simp
    show "0 \<le> i + 1" using Suc.prems(1) by simp
    show "i + 1 \<le> k" using lt by simp
    show "k < ntotal" by (rule Suc.prems(3))
    show "\<forall>j. i + 1 \<le> j \<and> j < k \<longrightarrow> unit_used sbi startblk j" using Suc.prems(4) by simp
    show "\<not> unit_used sbi startblk k" by (rule Suc.prems(5))
    show "\<forall>j. i + 1 \<le> j \<and> j \<le> k \<longrightarrow> \<not> rfault (fd sbi) (numbfs_bmap_blk startblk j)"
      using Suc.prems(6) by simp
    show "\<not> wfault (fd sbi) (numbfs_bmap_blk startblk k)" by (rule Suc.prems(7))
    show "(i + 1) mod 4096 \<noteq> 0 \<longrightarrow>
       blocks (fd sbi) (numbfs_bmap_blk startblk i) = blocks (fd sbi) (numbfs_bmap_blk startblk (i + 1))"
      using same_bitmap_block [OF Suc.prems(1)] by simp
  qed
  have "bitmap_alloc_loop sbi startblk ntotal i buf res =
          bitmap_alloc_loop sbi startblk ntotal (i + 1)
              (blocks (fd sbi) (numbfs_bmap_blk startblk i)) res"
    using Suc.prems lt by (subst bitmap_alloc_loop_step) simp_all
  then show ?case by (simp add: IH)
qed

subsection \<open>First fit\<close>

lemma bitmap_alloc_first_fit:
  assumes "0 \<le> k" "k < ntotal"
    and "\<forall>j. 0 \<le> j \<and> j < k \<longrightarrow> unit_used sbi startblk j"
    and "\<not> unit_used sbi startblk k"
    and "\<forall>j. 0 \<le> j \<and> j \<le> k \<longrightarrow> \<not> rfault (fd sbi) (numbfs_bmap_blk startblk j)"
    and "\<not> wfault (fd sbi) (numbfs_bmap_blk startblk k)"
  shows "numbfs_bitmap_alloc sbi startblk ntotal res status =
           (0, bitmap_mark sbi startblk k, k, status - 1)"
proof -
  have "bitmap_alloc_loop sbi startblk ntotal 0 (\<lambda>_. 0) res = (0, bitmap_mark sbi startblk k, k)"
    using assms by (intro bitmap_alloc_loop_first_fit) simp_all
  then show ?thesis by (simp add: numbfs_bitmap_alloc_def)
qed

lemma region_alloc_first_fit:
  assumes "0 \<le> k" "k < region_total r sbi" "region_free r sbi \<noteq> 0"
    and "\<forall>j. 0 \<le> j \<and> j < k \<longrightarrow> unit_used sbi (region_start r sbi) j"
    and "\<not> unit_used sbi (region_start r sbi) k"
    and "\<forall>j. 0 \<le> j \<and> j \<le> k \<longrightarrow> \<not> rfault (fd sbi) (numbfs_bmap_blk (region_start r sbi) j)"
    and "\<not> wfault (fd sbi) (numbfs_bmap_blk (region_start r sbi) k)"
  shows "region_alloc r sbi junk =
           (0, (case r of
                  Inode_region \<Rightarrow> (bitmap_mark sbi (ibitmap_start sbi) k)\<lparr>free_inodes := free_inodes sbi - 1\<rparr>
                | Block_region \<Rightarrow> (bitmap_mark sbi (bbitmap_start sbi) k)\<lparr>free_blocks := free_blocks sbi - 1\<rparr>), k)"
proof (cases r)
  case Inode_region
  with assms show ?thesis
    by (simp add: numbfs_alloc_inode_def
        bitmap_alloc_first_fit [where k = k and sbi = sbi and startblk = "ibitmap_start sbi"])
next
  case Block_region
  with assms show ?thesis
    by (simp add: numbfs_alloc_block_def
        bitmap_alloc_first_fit [where k = k and sbi = sbi and startblk = "bbitmap_start sbi"])
qed

lemma alloc_units_from:
  assumes "0 \<le> k" "k + int n \<le> region_total r sbi"
    and "region_free r sbi = region_total r sbi - k"
    and "\<forall>j. 0 \<le> j \<and> j < k \<longrightarrow> unit_used sbi (region_start r sbi) j"
    and "\<forall>j. k \<le> j \<and> j < region_total r sbi \<longrightarrow> \<not> unit_used sbi (region_start r sbi) j"
    and "region_healthy r sbi"
  shows "fst (alloc_units n r sbi junk) = map (\<lambda>i. (0, k + int i)) [0 ..< n]"
  using assms
proof (induction n arbitrary: sbi k)
  case 0
  show ?case by simp
next
  case (Suc n)
  define sbi1 where "sbi1 = (case r of
      Inode_region \<Rightarrow> (bitmap_mark sbi (ibitmap_start sbi) k)\<lparr>free_inodes := free_inodes sbi - 1\<rparr>
    | Block_region \<Rightarrow> (bitmap_mark sbi (bbitmap_start sbi) k)\<lparr>free_blocks := free_blocks sbi - 1\<rparr>)"
  have klt: "k < region_total r sbi" using Suc.prems(2) by simp
  have step: "region_alloc r sbi junk = (0, sbi1, k)"
    unfolding sbi1_def
  proof (rule region_alloc_first_fit)
    show "0 \<le> k" by (rule Suc.prems(1))
    show "k < region_total r sbi" by (rule klt)
    show "region_free r sbi \<noteq> 0" using Suc.prems(3) klt by simp
    show "\<forall>j. 0 \<le> j \<and> j < k \<longrightarrow> unit_used sbi (region_start r sbi) j" by (rule Suc.prems(4))
    show "\<not> unit_used sbi (region_start r sbi) k" using Suc.prems(5) klt by simp
    show "\<forall>j. 0 \<le> j \<and> j \<le> k \<longrightarrow> \<not> rfault (fd sbi) (numbfs_bmap_blk (region_start r sbi) j)"
      using Suc.prems(6) klt by (simp add: region_healthy_def)
    show "\<not> wfault (fd sbi) (numbfs_bmap_blk (region_start r sbi) k)"
      using Suc.prems(6) klt Suc.prems(1) by (simp add: region_healthy_def)
  qed
  have f1: "region_total r sbi1 = region_total r sbi" "region_start r sbi1 = region_start r sbi"
    "region_free r sbi1 = region_free r sbi - 1"
    "rfault (fd sbi1) = rfault (fd sbi)" "wfault (fd sbi1) = wfault (fd sbi)"
    by (cases r; simp add: sbi1_def bitmap_mark_fields)+
  have used1: "unit_used sbi1 (region_start r sbi) j \<longleftrightarrow> j = k \<or> unit_used sbi (region_start r sbi) j"
    if "0 \<le> j" for j
  proof -
    have "unit_used sbi1 (region_start r sbi) j =
            unit_used (bitmap_mark sbi (region_start r sbi) k) (region_start r sbi) j"
      by (cases r; simp add: sbi1_def unit_used_def)
    then show ?thesis using that Suc.prems(1) by (simp add: unit_used_mark)
  qed
  have IH: "fst (alloc_units n r sbi1 junk) = map (\<lambda>i. (0, (k + 1) + int i)) [0 ..< n]"
  proof (rule Suc.IH)
    show "0 \<le> k + 1" using Suc.prems(1) by simp
    show "k + 1 + int n \<le> region_total r sbi1" using Suc.prems(2) by (simp add: f1)
    show "region_free r sbi1 = region_total r sbi1 - (k + 1)" using Suc.prems(3) by (simp add: f1)
    show "\<forall>j. 0 \<le> j \<and> j < k + 1 \<longrightarrow> unit_used sbi1 (region_start r sbi1) j"
      using Suc.prems(4) by (auto simp add: f1 used1)
    show "\<forall>j. k + 1 \<le> j \<and> j < region_total r sbi1 \<longrightarrow> \<not> unit_used sbi1 (region_start r sbi1) j"
      using Suc.prems(5) Suc.prems(1) by (auto simp add: f1 used1)
    show "region_healthy r sbi1"
      using Suc.prems(6) by (simp add: region_healthy_def f1)
  qed
  have "map (\<lambda>i. (0::int, k + int i)) [0 ..< Suc n] =
          (0, k) # map (\<lambda>i. (0, (k + 1) + int i)) [0 ..< n]"
    by (simp add: upt_conv_Cons map_Suc_upt [symmetric] del: upt_Suc)
  then show ?case
    using step IH by (simp add: split_beta)
qed

subsection \<open>Counting zero bits\<close>

lemma filter_drop_one:
  "distinct xs \<Longrightarrow> k \<in> set xs \<Longrightarrow> P k \<Longrightarrow>
     Suc (length (filter (\<lambda>j. P j \<and> j \<noteq> k) xs)) = length (filter P xs)"
proof (induction xs)
  case Nil
  then show ?case by simp
next
  case (Cons x xs)
  show ?case
  proof (cases "x = k")
    case True
    then have "k \<notin> set xs" using Cons.prems(1) by simp
    then have "filter (\<lambda>j. P j \<and> j \<noteq> k) xs = filter P xs"
      by (intro filter_cong) auto
    with True Cons.prems(3) show ?thesis by simp
  next
    case False
    then have "k \<in> set xs" using Cons.prems(2) by simp
    with Cons False show ?thesis by simp
  qed
qed

lemma bitmap_count_mark:
  assumes "0 \<le> k" "k < n" "\<not> unit_used sbi s k"
  shows "bitmap_count (bitmap_mark sbi s k) s n = bitmap_count sbi s n - 1"
proof -
  have "filter (\<lambda>i. \<not> unit_used (bitmap_mark sbi s k) s i) [0 .. n - 1] =
        filter (\<lambda>j. \<not> unit_used sbi s j \<and> j \<noteq> k) [0 .. n - 1]"
    using assms(1) by (intro filter_cong) (auto simp add: unit_used_mark)
  moreover have "Suc (length (filter (\<lambda>j. \<not> unit_used sbi s j \<and> j \<noteq> k) [0 .. n - 1])) =
        length (filter (\<lambda>j. \<not> unit_used sbi s j) [0 .. n - 1])"
    using assms by (intro filter_drop_one) simp_all
  ultimately show ?thesis by (simp add: bitmap_count_def)
qed

lemma bitmap_count_unmark:
  assumes "0 \<le> k" "k < n" "unit_used sbi s k"
  shows "bitmap_count (bitmap_unmark sbi s k) s n = bitmap_count sbi s n + 1"
proof -
  let ?sbi' = "bitmap_unmark sbi s k"
  have "filter (\<lambda>i. \<not> unit_used sbi s i) [0 .. n - 1] =
        filter (\<lambda>j. \<not> unit_used ?sbi' s j \<and> j \<noteq> k) [0 .. n - 1]"
    using assms(1,3) by (intro filter_cong) (auto simp add: unit_used_unmark)
  moreover have "Suc (length (filter (\<lambda>j. \<not> unit_used ?sbi' s j \<and> j \<noteq> k) [0 .. n - 1])) =
        length (filter (\<lambda>j. \<not> unit_used ?sbi' s j) [0 .. n - 1])"
    using assms(1,2) by (intro filter_drop_one) (simp_all add: unit_used_unmark)
  ultimately show ?thesis by (simp add: bitmap_count_def)
qed

lemma bitmap_count_pos_free_unit:
  assumes "bitmap_count sbi s n \<noteq> 0"
  shows "\<exists>k. 0 \<le> k \<and> k < n \<and> \<not> unit_used sbi s k"
proof -
  have "filter (\<lambda>i. \<not> unit_used sbi s i) [0 .. n - 1] \<noteq> []"
    using assms by (auto simp add: bitmap_count_def)
  then obtain k where "k \<in> set [0 .. n - 1]" "\<not> unit_used sbi s k"
    by (auto simp add: filter_empty_conv)
  then show ?thesis by auto
qed

subsection \<open>A successful allocation\<close>

text \<open>Among the free units of a range there is a lowest one.\<close>

lemma lowest_free_unit_from:
  assumes "i \<le> k" "k < n" "\<not> unit_used sbi s k"
  shows "\<exists>m. i \<le> m \<and> m < n \<and> \<not> unit_used sbi s m \<and> (\<forall>j. i \<le> j \<and> j < m \<longrightarrow> unit_used sbi s j)"
proof -
  define Q where "Q = (\<lambda>d :: nat. \<not> unit_used sbi s (i + int d))"
  have qk: "Q (nat (k - i))" using assms by (simp add: Q_def)
  have l1: "Q (LEAST d. Q d)"
    using qk by (rule LeastI)
  have l2: "\<not> Q j" if "j < (LEAST d. Q d)" for j
    using that by (rule not_less_Least)
  have l3: "(LEAST d. Q d) \<le> nat (k - i)"
    using qk by (rule Least_le)
  define m where "m = i + int (LEAST d. Q d)"
  have "i \<le> m" "m < n" using l3 assms by (simp_all add: m_def)
  moreover have "\<not> unit_used sbi s m" using l1 by (simp add: Q_def m_def)
  moreover have "unit_used sbi s j" if "i \<le> j" "j < m" for j
    using l2 [of "nat (j - i)"] that by (simp add: Q_def m_def)
  ultimately show ?thesis by blast
qed

lemma bitmap_alloc_loop_step_fault:
  assumes "0 \<le> i" "i < ntotal"
    and "i mod 4096 \<noteq> 0 \<longrightarrow> buf = blocks (fd sbi) (numbfs_bmap_blk startblk i)"
  shows "bitmap_alloc_loop sbi startblk ntotal i buf res =
           (if i mod 4096 = 0 \<and> rfault (fd sbi) (numbfs_bmap_blk startblk i)
            then (- EIO, sbi, res)
            else if \<not> unit_used sbi startblk i
            then (case numbfs_write_block sbi
                         (set_bit_buf (blocks (fd sbi) (numbfs_bmap_blk startblk i))
                            (numbfs_bmap_byte i) (numbfs_bmap_bit i))
                         (numbfs_bmap_blk startblk i) of
                    (err2, sbi2) \<Rightarrow> (err2, sbi2, i))
            else bitmap_alloc_loop sbi startblk ntotal (i + 1)
                   (blocks (fd sbi) (numbfs_bmap_blk startblk i)) res)"
proof -
  have sm: "i smod NUMBFS_BLOCKS_PER_BLOCK = i mod 4096"
    using assms(1)
    by (simp add: NUMBFS_BLOCKS_PER_BLOCK_def BYTES_PER_BLOCK_def BITS_PER_BYTE_def smod_nonneg)
  show ?thesis
    using assms(2,3)
    by (subst bitmap_alloc_loop.simps)
       (simp add: sm unit_used_def numbfs_read_block_def EIO_def)
qed

lemma bitmap_alloc_loop_success:
  assumes "0 \<le> i" "i \<le> m" "m < ntotal"
    and "\<forall>j. i \<le> j \<and> j < m \<longrightarrow> unit_used sbi startblk j"
    and "\<not> unit_used sbi startblk m"
    and "i mod 4096 \<noteq> 0 \<longrightarrow> buf = blocks (fd sbi) (numbfs_bmap_blk startblk i)"
    and "bitmap_alloc_loop sbi startblk ntotal i buf res = (0, sbi', res')"
  shows "sbi' = bitmap_mark sbi startblk m \<and> res' = m"
  using assms
proof (induction "nat (m - i)" arbitrary: i buf)
  case 0
  then have im: "i = m" by simp
  have "bitmap_alloc_loop sbi startblk ntotal m buf res = (0, sbi', res')"
    using "0.prems"(7) by (simp add: im)
  then show ?case
    using "0.prems"(1,3,5,6) unfolding im
    by (subst (asm) bitmap_alloc_loop_step_fault)
       (auto simp add: numbfs_write_block_def bitmap_mark_def EIO_def transfer_set_bit
          bmap_byte_range split: if_splits)
next
  case (Suc n)
  then have lt: "i < m" by simp
  have used: "unit_used sbi startblk i" using Suc.prems(4) lt by simp
  have "i < ntotal" using lt Suc.prems(3) by simp
  then have nxt: "bitmap_alloc_loop sbi startblk ntotal (i + 1)
            (blocks (fd sbi) (numbfs_bmap_blk startblk i)) res = (0, sbi', res')"
    using Suc.prems(1,6,7) used
    by (subst (asm) bitmap_alloc_loop_step_fault) (auto simp add: EIO_def split: if_splits)
  show ?case
  proof (rule Suc.hyps(1))
    show "n = nat (m - (i + 1))" using Suc.hyps(2) by simp
    show "0 \<le> i + 1" using Suc.prems(1) by simp
    show "i + 1 \<le> m" using lt by simp
    show "m < ntotal" by (rule Suc.prems(3))
    show "\<forall>j. i + 1 \<le> j \<and> j < m \<longrightarrow> unit_used sbi startblk j" using Suc.prems(4) by simp
    show "\<not> unit_used sbi startblk m" by (rule Suc.prems(5))
    show "(i + 1) mod 4096 \<noteq> 0 \<longrightarrow>
       blocks (fd sbi) (numbfs_bmap_blk startblk i) = blocks (fd sbi) (numbfs_bmap_blk startblk (i + 1))"
      using same_bitmap_block [OF Suc.prems(1)] by simp
    show "bitmap_alloc_loop sbi startblk ntotal (i + 1)
            (blocks (fd sbi) (numbfs_bmap_blk startblk i)) res = (0, sbi', res')"
      by (rule nxt)
  qed
qed

text \<open>
  An allocation that returns 0 from a state with a consistent counter has set
  the bit of the lowest free unit and keeps the counter consistent, whatever
  faults the device has.
\<close>

lemma region_alloc_success:
  assumes "counter_consistent r sbi"
    and "region_alloc r sbi junk = (0, sbi', u)"
  shows "counter_consistent r sbi' \<and> 0 \<le> u \<and> u < region_total r sbi \<and>
         \<not> unit_used sbi (region_start r sbi) u \<and>
         (\<forall>j. 0 \<le> j \<and> j < u \<longrightarrow> unit_used sbi (region_start r sbi) j)"
proof -
  let ?s = "region_start r sbi" and ?n = "region_total r sbi"
  have nz: "region_free r sbi \<noteq> 0"
    using assms(2) by (cases r) (auto simp add: numbfs_alloc_inode_def numbfs_alloc_block_def ENOMEM_def)
  then have "bitmap_count sbi ?s ?n \<noteq> 0"
    using assms(1) by (simp add: counter_consistent_def)
  then obtain k where k: "0 \<le> k" "k < ?n" "\<not> unit_used sbi ?s k"
    using bitmap_count_pos_free_unit by blast
  then obtain m where m: "0 \<le> m" "m < ?n" "\<not> unit_used sbi ?s m"
      "\<forall>j. 0 \<le> j \<and> j < m \<longrightarrow> unit_used sbi ?s j"
    using lowest_free_unit_from [of 0 k ?n sbi ?s] by blast
  obtain e sbi1 res1 where loop: "bitmap_alloc_loop sbi ?s ?n 0 (\<lambda>_. 0) junk = (e, sbi1, res1)"
    by (metis prod_cases3)
  have e0: "e = 0"
    using assms(2) nz loop
    by (cases r) (auto simp add: numbfs_alloc_inode_def numbfs_alloc_block_def
        numbfs_bitmap_alloc_def split: if_splits)
  have res: "sbi1 = bitmap_mark sbi ?s m \<and> res1 = m"
    using m loop [unfolded e0]
    by (intro bitmap_alloc_loop_success [where i = 0 and buf = "\<lambda>_. 0" and res = junk]) simp_all
  have out: "u = m \<and> sbi' = (case r of
        Inode_region \<Rightarrow> (bitmap_mark sbi ?s m)\<lparr>free_inodes := free_inodes sbi - 1\<rparr>
      | Block_region \<Rightarrow> (bitmap_mark sbi ?s m)\<lparr>free_blocks := free_blocks sbi - 1\<rparr>)"
    using assms(2) nz loop e0 res
    by (cases r) (auto simp add: numbfs_alloc_inode_def numbfs_alloc_block_def
        numbfs_bitmap_alloc_def split: if_splits)
  have cnt: "bitmap_count (bitmap_mark sbi ?s m) ?s ?n = bitmap_count sbi ?s ?n - 1"
    using m by (intro bitmap_count_mark) simp_all
  have "counter_consistent r sbi'"
    using assms(1) out cnt
    by (cases r) (simp_all add: counter_consistent_def bitmap_mark_fields bitmap_count_def
        unit_used_def)
  with m out show ?thesis by simp
qed

subsection \<open>A free whose write-back succeeds\<close>

lemma bitmap_unmark_fields:
  "total_inodes (bitmap_unmark sbi s k) = total_inodes sbi"
  "free_inodes (bitmap_unmark sbi s k) = free_inodes sbi"
  "data_blocks (bitmap_unmark sbi s k) = data_blocks sbi"
  "free_blocks (bitmap_unmark sbi s k) = free_blocks sbi"
  "ibitmap_start (bitmap_unmark sbi s k) = ibitmap_start sbi"
  "inode_start (bitmap_unmark sbi s k) = inode_start sbi"
  "bbitmap_start (bitmap_unmark sbi s k) = bbitmap_start sbi"
  "data_start (bitmap_unmark sbi s k) = data_start sbi"
  "rfault (fd (bitmap_unmark sbi s k)) = rfault (fd sbi)"
  "wfault (fd (bitmap_unmark sbi s k)) = wfault (fd sbi)"
  by (simp_all add: bitmap_unmark_def)

lemma bitmap_free_result:
  assumes "numbfs_bitmap_free sbi s u status = Some (0, sbi', status')"
    and "\<not> wfault (fd sbi) (numbfs_bmap_blk s u)" and "0 \<le> u"
  shows "unit_used sbi s u \<and> sbi' = bitmap_unmark sbi s u \<and> status' = status + 1"
  using assms
  by (auto simp add: numbfs_bitmap_free_def numbfs_read_block_def numbfs_write_block_def
      unit_used_def bitmap_unmark_def EIO_def transfer_clear_bit bmap_byte_range
      split: if_splits)

text \<open>
  A free of an in-range unit that returns 0 keeps the counter consistent when
  the write-back of the bitmap block did not fault.
\<close>

lemma region_release_success:
  assumes "counter_consistent r sbi" "0 \<le> u"
    and "region_release r sbi u = Some (0, sbi')"
    and "\<not> wfault (fd sbi) (numbfs_bmap_blk (region_start r sbi) u)"
  shows "counter_consistent r sbi'"
proof -
  let ?s = "region_start r sbi" and ?n = "region_total r sbi"
  have lt: "u < ?n"
    using assms(3)
    by (cases r) (auto simp add: numbfs_free_inode_def numbfs_free_block_def EINVAL_def
        split: if_splits)
  obtain st where fr: "numbfs_bitmap_free sbi ?s u (region_free r sbi) = Some (0, bitmap_unmark sbi ?s u, st)"
      and used: "unit_used sbi ?s u" and st: "st = region_free r sbi + 1"
      and out: "sbi' = (case r of
          Inode_region \<Rightarrow> (bitmap_unmark sbi ?s u)\<lparr>free_inodes := st\<rparr>
        | Block_region \<Rightarrow> (bitmap_unmark sbi ?s u)\<lparr>free_blocks := st\<rparr>)"
    using assms(2,3,4) lt
    by (cases r)
       (auto simp add: numbfs_free_inode_def numbfs_free_block_def
          split: if_splits option.splits dest!: bitmap_free_result)
  have cnt: "bitmap_count (bitmap_unmark sbi ?s u) ?s ?n = bitmap_count sbi ?s ?n + 1"
    using assms(2) lt used by (intro bitmap_count_unmark) simp_all
  show ?thesis
    using assms(1) out cnt st
    by (cases r) (simp_all add: counter_consistent_def bitmap_unmark_fields bitmap_count_def
        unit_used_def)
qed

subsection \<open>The geometry and the faults are left alone\<close>

lemma same_layout_refl: "same_layout a a"
  by (simp add: same_layout_def)



lemma write_block_layout: "numbfs_write_block sbi buf b = (e, sbi') \<Longrightarrow> same_layout sbi sbi'"
  by (auto simp add: numbfs_write_block_def same_layout_def split: if_splits)




lemma bitmap_alloc_loop_layout:
  "same_layout sbi (fst (snd (bitmap_alloc_loop sbi startblk ntotal i buf res)))"
proof (induction sbi startblk ntotal i buf res rule: bitmap_alloc_loop.induct)
  case (1 sbi startblk ntotal i buf res)
  show ?case
    using 1
    by (subst bitmap_alloc_loop.simps)
       (auto simp add: same_layout_refl split: prod.splits intro: write_block_layout)
qed


lemma alloc_inode_layout: "same_layout sbi (fst (snd (numbfs_alloc_inode sbi n0)))"
  using bitmap_alloc_loop_layout [of sbi "ibitmap_start sbi" "total_inodes sbi" 0 "\<lambda>_. 0" n0]
  by (auto simp add: numbfs_alloc_inode_def numbfs_bitmap_alloc_def same_layout_def
      split: prod.splits)

subsection \<open>Return values of the allocator\<close>

lemma write_block_err: "numbfs_write_block sbi buf b = (e, sbi') \<Longrightarrow> e \<le> 0"
  by (auto simp add: numbfs_write_block_def EIO_def split: if_splits)

lemma bitmap_alloc_loop_err:
  "fst (bitmap_alloc_loop sbi startblk ntotal i buf res) \<le> 0"
proof (induction sbi startblk ntotal i buf res rule: bitmap_alloc_loop.induct)
  case (1 sbi startblk ntotal i buf res)
  show ?case
    using 1
    by (subst bitmap_alloc_loop.simps)
       (auto simp add: numbfs_read_block_def EIO_def split: prod.splits if_splits
          dest: write_block_err)
qed


lemma alloc_inode_err: "fst (numbfs_alloc_inode sbi n0) \<le> 0"
  using bitmap_alloc_loop_err [of sbi "ibitmap_start sbi" "total_inodes sbi" 0 "\<lambda>_. 0" n0]
  by (auto simp add: numbfs_alloc_inode_def numbfs_bitmap_alloc_def ENOMEM_def
      split: prod.splits)

subsection \<open>What the inode codec writes\<close>




subsection \<open>The address translation with allocation\<close>



subsection \<open>A successful write\<close>







subsection \<open>A write into a hole on a healthy device\<close>






subsection \<open>Little-endian fields\<close>
















subsection \<open>Dumping an inode and loading it again\<close>





subsection \<open>The order of the zones\<close>



subsection \<open>The same device at a later time\<close>




subsection \<open>The writes of the small file system\<close>





subsection \<open>The two entries of a fresh directory\<close>



subsection \<open>The record of an inode inside its block\<close>




section \<open>Range errors of the address translation\<close>

text \<open>
  Claim C8. For every inode mirror and every byte offset whose logical block
  index, the offset divided by the block size, is at least 10, the translation
  without extent addressing returns \<open>-E2BIG\<close> whatever the allocation flag is,
  and both mirrors, the device included, are returned as they were: no block is
  allocated and no pointer slot changes.
\<close>

theorem blkaddr_out_of_range:
  assumes "pos sdiv BYTES_PER_BLOCK \<ge> 10"
  shows "numbfs_inode_blkaddr sbi inode pos alloc False blkno0 = (- E2BIG, sbi, inode)"
  using assms by (simp add: numbfs_inode_blkaddr_def NUMBFS_NUM_DATA_ENTRY_def)

theorem blkaddr_out_of_range_witness:
  "(5120 :: int) sdiv BYTES_PER_BLOCK \<ge> 10 \<and>
   numbfs_inode_blkaddr ex_sbi ex_inode 5120 True False 0 = (- E2BIG, ex_sbi, ex_inode) \<and>
   numbfs_inode_blkaddr ex_sbi ex_inode 5120 False False 0 = (- E2BIG, ex_sbi, ex_inode)"
proof -
  have h: "(5120 :: int) sdiv BYTES_PER_BLOCK \<ge> 10"
    by (simp add: BYTES_PER_BLOCK_def signed_divide_int_def)
  show ?thesis
    using h blkaddr_out_of_range [OF h, of ex_sbi ex_inode True 0]
      blkaddr_out_of_range [OF h, of ex_sbi ex_inode False 0]
    by simp
qed


section \<open>A failed write grows the mirror\<close>

text \<open>
  Claim C10 says that a write whose span fits into one block and whose logical
  block index is 10 or more returns the range error with the size of the mirror
  set to the maximum of the old size and \<open>offset + len\<close>. The sum is an \<^verbatim>\<open>int\<close>.
  On the fresh inode, whose size is 0, the write of one byte at offset
  2147483647 (index 4194303, remainder 511) returns \<open>-E2BIG\<close> and leaves the size
  at 0, where the claim asks for 2147483648: the sum wraps to \<open>-2147483648\<close>.
\<close>

theorem pwrite_size_sum_wraps:
  "(2147483647 :: int) sdiv BYTES_PER_BLOCK \<ge> 10 \<and>
   (2147483647 :: int) smod BYTES_PER_BLOCK + 1 \<le> BYTES_PER_BLOCK \<and>
   max (fsize ex_inode) (2147483647 + 1) = 2147483648 \<and>
   fst (numbfs_pwrite_inode ex_sbi ex_inode zero_buf 2147483647 1 0) = - E2BIG \<and>
   fsize (snd (snd (numbfs_pwrite_inode ex_sbi ex_inode zero_buf 2147483647 1 0))) = 0"
proof -
  have h1: "(2147483647 :: int) sdiv BYTES_PER_BLOCK = 4194303"
    by (simp add: BYTES_PER_BLOCK_def c_divmod)
  have h2: "(2147483647 :: int) smod BYTES_PER_BLOCK = 511"
    by (simp add: BYTES_PER_BLOCK_def c_divmod)
  have r: "numbfs_pwrite_inode ex_sbi ex_inode zero_buf 2147483647 1 0 =
             (- E2BIG, ex_sbi, ex_inode\<lparr>fsize := max (fsize ex_inode) (int32 (2147483647 + 1))\<rparr>)"
    by (simp add: numbfs_pwrite_inode_def numbfs_inode_blkaddr_def NUMBFS_NUM_DATA_ENTRY_def
        Let_def h1 h2 E2BIG_def BYTES_PER_BLOCK_def)
  have s: "fsize ex_inode = 0" by (simp add: ex_inode_def)
  show ?thesis
    unfolding r h1 h2 by (simp add: s int32_overflow BYTES_PER_BLOCK_def)
qed

text \<open>
  Claim C10, as amended. \<^verbatim>\<open>numbfs_pwrite_inode\<close> grows the size of the in-memory
  mirror before the logical block index is validated: when the span fits into
  one block but the index is 10 or more, the call returns \<open>-E2BIG\<close> and hands back
  the mirror with its size set to the maximum of the old size and the \<^verbatim>\<open>int\<close>
  value of \<open>offset + len\<close>; the superblock mirror and the device are as before.
  Whenever \<open>offset + len\<close> is representable in \<^verbatim>\<open>int\<close>, the new size is the maximum
  of the old size and \<open>offset + len\<close>.
\<close>

theorem pwrite_grows_size_before_range_check:
  assumes "offset sdiv BYTES_PER_BLOCK \<ge> 10"
    and "offset smod BYTES_PER_BLOCK + len \<le> BYTES_PER_BLOCK"
  shows "numbfs_pwrite_inode sbi inode_i buf offset len blkno0 =
           (- E2BIG, sbi, inode_i\<lparr>fsize := max (fsize inode_i) (int32 (offset + len))\<rparr>) \<and>
         (- 2147483648 \<le> offset + len \<and> offset + len \<le> 2147483647 \<longrightarrow>
            numbfs_pwrite_inode sbi inode_i buf offset len blkno0 =
              (- E2BIG, sbi, inode_i\<lparr>fsize := max (fsize inode_i) (offset + len)\<rparr>))"
proof -
  have r: "numbfs_pwrite_inode sbi inode_i buf offset len blkno0 =
             (- E2BIG, sbi, inode_i\<lparr>fsize := max (fsize inode_i) (int32 (offset + len))\<rparr>)"
    using assms
    by (simp add: numbfs_pwrite_inode_def numbfs_inode_blkaddr_def NUMBFS_NUM_DATA_ENTRY_def
        Let_def E2BIG_def)
  show ?thesis
    using r by (simp add: int32_id)
qed

theorem pwrite_grows_size_before_range_check_witness:
  "(5120 :: int) sdiv BYTES_PER_BLOCK \<ge> 10 \<and>
   (5120 :: int) smod BYTES_PER_BLOCK + 1 \<le> BYTES_PER_BLOCK \<and>
   - 2147483648 \<le> (5120 :: int) + 1 \<and> (5120 :: int) + 1 \<le> 2147483647 \<and>
   numbfs_pwrite_inode ex_sbi ex_inode zero_buf 5120 1 0 =
     (- E2BIG, ex_sbi, ex_inode\<lparr>fsize := 5121\<rparr>) \<and>
   fsize ex_inode = 0"
proof -
  have h1: "(5120 :: int) sdiv BYTES_PER_BLOCK \<ge> 10"
    by (simp add: BYTES_PER_BLOCK_def signed_divide_int_def)
  have h2: "(5120 :: int) smod BYTES_PER_BLOCK + 1 \<le> BYTES_PER_BLOCK"
    by (simp add: BYTES_PER_BLOCK_def signed_modulo_int_def)
  show ?thesis
    using h1 h2 pwrite_grows_size_before_range_check [OF h1 h2, of ex_sbi ex_inode zero_buf 0]
    by (simp add: ex_inode_def int32_id)
qed

section \<open>Reading a hole\<close>

text \<open>
  What the hole branch of \<^verbatim>\<open>numbfs_pread_inode\<close> does: for a single-block request
  below the direct span that lies at or beyond the size (with a pointer that is
  no error code) or whose pointer is the hole sentinel, the call returns 0 and
  the whole buffer of one block holds the byte value of \<open>len\<close>.
\<close>

lemma pread_hole_fill:
  assumes "offset smod BYTES_PER_BLOCK + len \<le> BYTES_PER_BLOCK"
    and "offset sdiv BYTES_PER_BLOCK < 10"
    and "offset \<ge> fsize inode_i \<and> 0 \<le> data inode_i (offset sdiv BYTES_PER_BLOCK)
         \<or> data inode_i (offset sdiv BYTES_PER_BLOCK) = NUMBFS_HOLE"
  shows "numbfs_pread_inode sbi inode_i buf offset len =
           (0, memset_buf buf len BYTES_PER_BLOCK)"
  using assms
  by (auto simp add: numbfs_pread_inode_def numbfs_inode_blkaddr_def NUMBFS_NUM_DATA_ENTRY_def
      Let_def NUMBFS_HOLE_def)

text \<open>
  Claim C1 asks for zeros in the first \<open>len\<close> bytes of the buffer after a read
  of a hole or beyond the size. On the freshly formatted inode, whose size is 0
  and whose pointer 0 is the hole sentinel, a read of one byte at offset 0
  returns 0 and leaves the value 1 in byte 0 of the buffer: the arguments of
  \<^verbatim>\<open>memset\<close> are the length and the block size, in this order.
\<close>

theorem pread_hole_not_zero:
  "fsize ex_inode \<le> 0 \<and>
   data ex_inode (0 sdiv BYTES_PER_BLOCK) = NUMBFS_HOLE \<and>
   (0::int) smod BYTES_PER_BLOCK + 1 \<le> BYTES_PER_BLOCK \<and>
   fst (numbfs_pread_inode ex_sbi ex_inode zero_buf 0 1) = 0 \<and>
   snd (numbfs_pread_inode ex_sbi ex_inode zero_buf 0 1) 0 = 1"
  by (simp add: numbfs_pread_inode_def numbfs_inode_blkaddr_def NUMBFS_NUM_DATA_ENTRY_def
      Let_def NUMBFS_HOLE_def ex_inode_def BYTES_PER_BLOCK_def memset_buf_def)

section \<open>A write fault while freeing\<close>

text \<open>
  Claim C7 asks that a failed write-back of the bitmap block makes
  \<^verbatim>\<open>numbfs_free_block\<close> return the error. On the device whose block bitmap
  cannot be written, freeing the allocated data block 0 returns 0; the free
  counter goes from 7 to 8 and the device keeps the bit.
\<close>

theorem free_block_hides_write_fault:
  "wfault (fd wf_sbi) (numbfs_bmap_blk (bbitmap_start wf_sbi) 0) \<and>
   unit_used wf_sbi (bbitmap_start wf_sbi) 0 \<and>
   numbfs_free_block wf_sbi 0 = Some (0, wf_sbi\<lparr>free_blocks := 8\<rparr>)"
  by (simp add: numbfs_free_block_def numbfs_bitmap_free_def numbfs_read_block_def
      numbfs_write_block_def wf_sbi_def wf_dev_def ex_sbi_def bmap_zero test_bit_def
      bit_mask_def unit_used_def)

section \<open>Geometry of a small device\<close>

text \<open>
  Claim C5 asks that every device the size check accepts gets strictly
  increasing zone starts, a non-negative number of data blocks and a data zone
  inside the device. For 8 inodes the check rejects sizes up to 1539 bytes; a
  device of 1540 bytes, which has 3 blocks, is accepted and gets the block
  bitmap and the data zone both at block 4, with \<open>-2\<close> data blocks.
\<close>

theorem mkfs_geometry_undersized:
  "numbfs_mkfs_geometry tiny_sbi 1540 =
     Inr (tiny_sbi\<lparr>dsize := 1540, ibitmap_start := 2, inode_start := 3, bbitmap_start := 4,
                    data_blocks := - 2, free_blocks := - 2, data_start := 4\<rparr>, 3)"
  by (simp add: numbfs_mkfs_geometry_def tiny_sbi_def ex_sbi_def Let_def round_up_def
      DIV_ROUND_UP_def BYTES_PER_BLOCK_def BITS_PER_BYTE_def SIZEOF_INODE_def c_divmod)

section \<open>First-fit allocation order\<close>

text \<open>
  Claim C6. On a region whose bitmap blocks transfer without fault, an
  allocation with a non-zero free counter picks the lowest-indexed unit whose
  bit is zero, whatever the state of the bitmap: it returns 0 and this unit
  \<open>k\<close>, sets the bit of \<open>k\<close> on the device and nothing else, and decrements the
  free counter. Hence on a bitmap that is empty over its unit count, with the
  free counter equal to the unit count, \<open>n\<close> successive allocations, \<open>n\<close> at most
  the unit count, all return 0 and hand out the units \<open>0, 1, \<dots>, n - 1\<close> in this
  order.
\<close>

theorem first_fit_allocation:
  assumes "region_healthy r sbi"
  shows "(\<forall>k. 0 \<le> k \<and> k < region_total r sbi \<and> region_free r sbi \<noteq> 0 \<and>
              \<not> unit_used sbi (region_start r sbi) k \<and>
              (\<forall>j. 0 \<le> j \<and> j < k \<longrightarrow> unit_used sbi (region_start r sbi) j) \<longrightarrow>
            region_alloc r sbi junk =
              (0, (case r of
                     Inode_region \<Rightarrow>
                       (bitmap_mark sbi (ibitmap_start sbi) k)\<lparr>free_inodes := free_inodes sbi - 1\<rparr>
                   | Block_region \<Rightarrow>
                       (bitmap_mark sbi (bbitmap_start sbi) k)\<lparr>free_blocks := free_blocks sbi - 1\<rparr>),
               k) \<and>
            (\<forall>j. 0 \<le> j \<longrightarrow>
               unit_used (fst (snd (region_alloc r sbi junk))) (region_start r sbi) j =
                 (j = k \<or> unit_used sbi (region_start r sbi) j))) \<and>
         (bitmap_empty r sbi \<and> region_free r sbi = region_total r sbi \<and>
          int n \<le> region_total r sbi \<longrightarrow>
            fst (alloc_units n r sbi junk) = map (\<lambda>i. (0, int i)) [0 ..< n])"
proof -
  have step: "region_alloc r sbi junk =
              (0, (case r of
                     Inode_region \<Rightarrow>
                       (bitmap_mark sbi (ibitmap_start sbi) k)\<lparr>free_inodes := free_inodes sbi - 1\<rparr>
                   | Block_region \<Rightarrow>
                       (bitmap_mark sbi (bbitmap_start sbi) k)\<lparr>free_blocks := free_blocks sbi - 1\<rparr>),
               k) \<and>
            (\<forall>j. 0 \<le> j \<longrightarrow>
               unit_used (fst (snd (region_alloc r sbi junk))) (region_start r sbi) j =
                 (j = k \<or> unit_used sbi (region_start r sbi) j))"
    if k: "0 \<le> k" "k < region_total r sbi" "region_free r sbi \<noteq> 0"
      "\<not> unit_used sbi (region_start r sbi) k"
      "\<forall>j. 0 \<le> j \<and> j < k \<longrightarrow> unit_used sbi (region_start r sbi) j" for k
  proof -
    have rf: "\<forall>j. 0 \<le> j \<and> j \<le> k \<longrightarrow> \<not> rfault (fd sbi) (numbfs_bmap_blk (region_start r sbi) j)"
      using assms k(2) by (simp add: region_healthy_def)
    have wf: "\<not> wfault (fd sbi) (numbfs_bmap_blk (region_start r sbi) k)"
      using assms k(1,2) by (simp add: region_healthy_def)
    note res = region_alloc_first_fit [OF k(1,2,3,5,4) rf wf, of junk]
    have "unit_used (fst (snd (region_alloc r sbi junk))) (region_start r sbi) j =
            (j = k \<or> unit_used sbi (region_start r sbi) j)" if "0 \<le> j" for j
    proof -
      have "unit_used (fst (snd (region_alloc r sbi junk))) (region_start r sbi) j =
              unit_used (bitmap_mark sbi (region_start r sbi) k) (region_start r sbi) j"
        unfolding res by (cases r; simp add: unit_used_def)
      then show ?thesis using that k(1) by (simp add: unit_used_mark)
    qed
    with res show ?thesis by simp
  qed
  have seq: "fst (alloc_units n r sbi junk) = map (\<lambda>i. (0, int i)) [0 ..< n]"
    if "bitmap_empty r sbi" "region_free r sbi = region_total r sbi"
      "int n \<le> region_total r sbi"
    using alloc_units_from [of 0 n r sbi junk] assms that by (simp add: bitmap_empty_def)
  show ?thesis
    using step seq by blast
qed

theorem first_fit_allocation_witness:
  "region_healthy Inode_region ib_sbi \<and>
   unit_used ib_sbi (region_start Inode_region ib_sbi) 0 \<and>
   \<not> unit_used ib_sbi (region_start Inode_region ib_sbi) 1 \<and>
   unit_used ib_sbi (region_start Inode_region ib_sbi) 2 \<and>
   region_free Inode_region ib_sbi = 6 \<and>
   fst (region_alloc Inode_region ib_sbi 7) = 0 \<and>
   snd (snd (region_alloc Inode_region ib_sbi 7)) = 1 \<and>
   free_inodes (fst (snd (region_alloc Inode_region ib_sbi 7))) = 5 \<and>
   unit_used (fst (snd (region_alloc Inode_region ib_sbi 7))) (region_start Inode_region ib_sbi) 1 \<and>
   \<not> unit_used (fst (snd (region_alloc Inode_region ib_sbi 7))) (region_start Inode_region ib_sbi) 3 \<and>
   region_healthy Inode_region ex_sbi \<and>
   bitmap_empty Inode_region ex_sbi \<and>
   region_free Inode_region ex_sbi = region_total Inode_region ex_sbi \<and>
   int 3 \<le> region_total Inode_region ex_sbi \<and>
   fst (alloc_units 3 Inode_region ex_sbi 0) = [(0, 0), (0, 1), (0, 2)]"
proof -
  have u: "unit_used ib_sbi 2 j \<longleftrightarrow> j = 0 \<or> j = 2" if "0 \<le> j" "j < 8" for j
  proof -
    have "j = 0 \<or> j = 1 \<or> j = 2 \<or> j = 3 \<or> j = 4 \<or> j = 5 \<or> j = 6 \<or> j = 7"
      using that by arith
    then show ?thesis
      by (auto simp add: unit_used_def ib_sbi_def ib_dev_def ex_sbi_def bmap_blk_nonneg
          bmap_byte_nonneg bmap_bit_nonneg test_bit_def bit_mask_def)
  qed
  have g: "region_start Inode_region ib_sbi = 2" "region_total Inode_region ib_sbi = 8"
    "region_free Inode_region ib_sbi = 6" "ibitmap_start ib_sbi = 2" "free_inodes ib_sbi = 6"
    "total_inodes ib_sbi = 8"
    by (simp_all add: ib_sbi_def ex_sbi_def)
  have k1: "region_healthy Inode_region ib_sbi"
    by (simp add: region_healthy_def ib_sbi_def ib_dev_def ex_sbi_def)
  have pre: "0 \<le> (1::int) \<and> 1 < region_total Inode_region ib_sbi \<and>
             region_free Inode_region ib_sbi \<noteq> 0 \<and>
             \<not> unit_used ib_sbi (region_start Inode_region ib_sbi) 1 \<and>
             (\<forall>j. 0 \<le> j \<and> j < 1 \<longrightarrow> unit_used ib_sbi (region_start Inode_region ib_sbi) j)"
    using u [of 1] u by (simp add: g)
  have h1: "bitmap_empty Inode_region ex_sbi"
    by (simp add: bitmap_empty_def unit_used_def ex_sbi_def ex_dev_def test_bit_def)
  have h2: "region_free Inode_region ex_sbi = region_total Inode_region ex_sbi"
    by (simp add: ex_sbi_def)
  have h3: "int 3 \<le> region_total Inode_region ex_sbi"
    by (simp add: ex_sbi_def)
  have h4: "region_healthy Inode_region ex_sbi"
    by (simp add: region_healthy_def ex_sbi_def ex_dev_def)
  have m: "map (\<lambda>i. (0::int, int i)) [0 ..< 3] = [(0, 0), (0, 1), (0, 2)]"
    by (simp add: numeral_3_eq_3 upt_conv_Cons)
  note A = first_fit_allocation [OF k1, of 7 0]
  note B = first_fit_allocation [OF h4, of 0 3]
  note A1 = A [THEN conjunct1, THEN spec, of 1, THEN mp, OF pre]
  have a: "region_alloc Inode_region ib_sbi 7 =
             (0, (bitmap_mark ib_sbi 2 1)\<lparr>free_inodes := 5\<rparr>, 1)"
    using A1 [THEN conjunct1] by (simp add: g)
  have a': "\<forall>j. 0 \<le> j \<longrightarrow>
               unit_used (fst (snd (region_alloc Inode_region ib_sbi 7))) 2 j =
                 (j = 1 \<or> unit_used ib_sbi 2 j)"
    using A1 [THEN conjunct2] by (simp add: g)
  have b: "fst (alloc_units 3 Inode_region ex_sbi 0) = [(0, 0), (0, 1), (0, 2)]"
    using B h1 h2 h3 m by simp
  show ?thesis
    using k1 h1 h2 h3 h4 b a a' u [of 0] u [of 1] u [of 2] u [of 3]
    by (simp add: g)
qed

section \<open>The free counter and the bitmap\<close>

text \<open>
  Claim C2 asks that every allocation and every free that returns success
  keeps the free counter equal to the number of zero bits of the bitmap.
  Lemma \<open>region_alloc_success\<close> shows this for the allocations, and lemma
  \<open>region_release_success\<close> for a free whose write-back went through. On the
  device whose block bitmap cannot be written the counter is consistent, 7
  free blocks of 8; freeing the allocated block 0 returns 0, and the counter
  is 8 afterwards while the bitmap still has 7 zero bits.
\<close>

theorem free_breaks_counter_on_write_fault:
  "counter_consistent Block_region wf_sbi \<and>
   region_release Block_region wf_sbi 0 = Some (0, wf_sbi\<lparr>free_blocks := 8\<rparr>) \<and>
   \<not> counter_consistent Block_region (wf_sbi\<lparr>free_blocks := 8\<rparr>)"
proof -
  have cnt: "bitmap_count wf_sbi 4 8 = 7"
    by (simp add: bitmap_count_def upto_rec1 unit_used_def wf_sbi_def wf_dev_def ex_sbi_def
        bmap_blk_nonneg bmap_byte_nonneg bmap_bit_nonneg test_bit_def bit_mask_def)
  have cnt': "bitmap_count (wf_sbi\<lparr>free_blocks := 8\<rparr>) 4 8 = bitmap_count wf_sbi 4 8"
    by (simp add: bitmap_count_def unit_used_def)
  have rel: "numbfs_free_block wf_sbi 0 = Some (0, wf_sbi\<lparr>free_blocks := 8\<rparr>)"
    by (simp add: numbfs_free_block_def numbfs_bitmap_free_def numbfs_read_block_def
      numbfs_write_block_def wf_sbi_def wf_dev_def ex_sbi_def bmap_zero test_bit_def
      bit_mask_def)
  have g: "bbitmap_start wf_sbi = 4" "data_blocks wf_sbi = 8" "free_blocks wf_sbi = 7"
    by (simp_all add: wf_sbi_def ex_sbi_def)
  show ?thesis
    using cnt cnt' rel by (simp add: counter_consistent_def g)
qed

section \<open>Writing and reading back\<close>




section \<open>A fresh directory\<close>



end
